theory Spec2Isabelle
  imports Main
begin

section \<open>Values shared by the server modules\<close>

text \<open>
  An ObjectId is an opaque key; only equality on it is ever used by the code.
\<close>

type_synonym objid = nat

text \<open>
  Everything a handler can raise. \<open>AppError\<close> is the operational error of the
  controllers (message and HTTP status); the other constructors are what the ODM and
  the runtime raise: the schema validators failing on \<open>create\<close>/\<open>save\<close> (with the
  message of each path that failed), a property read on \<open>null\<close>, a query the database
  refuses, and whatever a library call throws.
\<close>

datatype failure =
    AppError (err_message: string) (err_statusCode: nat)
  | ValidationError "string list"
  | TypeError string
  | QueryError string
  | LibError string

text \<open>JSON values, as \<open>res.json\<close> sends them and \<open>toObject\<close> builds them.\<close>

datatype jsval =
    JNull
  | JBool bool
  | JNumber int
  | JString string
  | JObjectId objid
  | JDate nat
  | JObject "(string \<times> jsval) list"

text \<open>\<open>delete obj.k\<close> on a plain object: the key goes, the others keep their order.\<close>

definition delete_key :: "string \<Rightarrow> (string \<times> jsval) list \<Rightarrow> (string \<times> jsval) list" where
  "delete_key k obj = filter (\<lambda>kv. fst kv \<noteq> k) obj"

definition has_key :: "string \<Rightarrow> (string \<times> jsval) list \<Rightarrow> bool" where
  "has_key k obj = (k \<in> fst ` set obj)"

text \<open>
  A string is the list of its code units, one \<open>char\<close> each: the strings of the model
  are those whose code units are below 256. \<open>String.prototype.trim\<close> removes white
  space at both ends, which in this range is tab, line feed, vertical tab, form feed,
  carriage return, space and the no-break space; \<open>toLowerCase\<close> maps \<open>A\<close> to \<open>Z\<close>
  and the capital letters from U+00C0 to U+00DE (the sign U+00D7 apart) to the letter
  32 places further.
\<close>

definition is_space :: "char \<Rightarrow> bool" where
  "is_space c = (c \<in> set [CHR 0x09, CHR 0x0A, CHR 0x0B, CHR 0x0C, CHR 0x0D, CHR 0x20, CHR 0xA0])"

definition trim :: "string \<Rightarrow> string" where
  "trim s = rev (dropWhile is_space (rev (dropWhile is_space s)))"

definition to_lower :: "char \<Rightarrow> char" where
  "to_lower c =
     (let k = (of_char c :: nat)
      in if (65 \<le> k \<and> k \<le> 90) \<or> (192 \<le> k \<and> k \<le> 222 \<and> k \<noteq> 215) then char_of (k + 32) else c)"

definition toLowerCase :: "string \<Rightarrow> string" where
  "toLowerCase s = map to_lower s"

text \<open>
  A request body is the object of its fields; the fields modelled are the string-valued
  ones. Reading a field that the body does not have gives \<open>undefined\<close>
  (\<open>None\<close>). \<open>falsy\<close> is the test \<open>!v\<close> on such a field: \<open>undefined\<close> and the
  empty string are falsy.
\<close>

type_synonym req_body = "string \<rightharpoonup> string"

definition falsy :: "string option \<Rightarrow> bool" where
  "falsy v = (case v of None \<Rightarrow> True | Some s \<Rightarrow> s = [])"

section \<open>models/user.model.js\<close>

datatype role = RoleUser | RoleAdmin

definition role_string :: "role \<Rightarrow> string" where
  "role_string r = (case r of RoleUser \<Rightarrow> ''user'' | RoleAdmin \<Rightarrow> ''admin'')"

text \<open>
  The paths the schema declares, with \<open>_id\<close>, the stamps \<open>createdAt\<close> and
  \<open>updatedAt\<close> of the schema option \<open>timestamps\<close> (times are numbers), and the
  version key \<open>__v\<close>. The optional paths \<open>passwordHash\<close> and \<open>googleId\<close> are absent
  (\<open>None\<close>) until set.
\<close>

record user =
  u_id :: objid
  email :: string
  passwordHash :: "string option"
  googleId :: "string option"
  name :: string
  bio :: string
  role :: role
  isActive :: bool
  u_createdAt :: nat
  u_updatedAt :: nat
  u_v :: nat

text \<open>\<open>this.toObject()\<close>: the document's own paths as a plain object.\<close>

definition toObject :: "user \<Rightarrow> (string \<times> jsval) list" where
  "toObject u =
     [(''_id'', JObjectId (u_id u)), (''email'', JString (email u))]
     @ (case passwordHash u of None \<Rightarrow> [] | Some h \<Rightarrow> [(''passwordHash'', JString h)])
     @ (case googleId u of None \<Rightarrow> [] | Some g \<Rightarrow> [(''googleId'', JString g)])
     @ [(''name'', JString (name u)), (''bio'', JString (bio u)),
        (''role'', JString (role_string (role u))), (''isActive'', JBool (isActive u)),
        (''createdAt'', JDate (u_createdAt u)), (''updatedAt'', JDate (u_updatedAt u)),
        (''__v'', JNumber (int (u_v u)))]"

text \<open>
  \<open>userSchema.methods.toJSON\<close>: \<open>toObject\<close>, then \<open>delete obj.passwordHash\<close> and
  \<open>delete obj.__v\<close>. \<open>res.json\<close> serialises a document through this method.
\<close>

definition toJSON :: "user \<Rightarrow> (string \<times> jsval) list" where
  "toJSON u = delete_key ''__v'' (delete_key ''passwordHash'' (toObject u))"

definition isAdmin :: "user \<Rightarrow> bool" where
  "isAdmin u = (role u = RoleAdmin)"

section \<open>Library calls and configuration\<close>

text \<open>
  The token carries \<open>id\<close>, \<open>accountType\<close> and \<open>role\<close>.
\<close>

record token_payload =
  tp_id :: objid
  accountType :: string
  tp_role :: string

text \<open>
  \<open>jsonwebtoken\<close> and \<open>bcryptjs\<close> are libraries: their functions are parameters of the
  model. \<open>jwt_verify token secret\<close> either returns the decoded payload or throws
  (\<open>Inl\<close>); \<open>bcrypt_compare password hash\<close> answers whether the password matches;
  \<open>bcrypt_hash password rounds\<close> is the salted hash.
\<close>

record libs =
  jwt_sign :: "token_payload \<Rightarrow> string \<Rightarrow> string \<Rightarrow> string"
  jwt_verify :: "string \<Rightarrow> string \<Rightarrow> failure + token_payload"
  bcrypt_compare :: "string \<Rightarrow> string \<Rightarrow> bool"
  bcrypt_hash :: "string \<Rightarrow> nat \<Rightarrow> string"

text \<open>The fields of \<open>config/index.config\<close> that the modelled code reads.\<close>

record config =
  env :: string
  jwtSecret :: string
  jwtExpire :: string

section \<open>utils/jwt.js\<close>

definition generateToken :: "libs \<Rightarrow> config \<Rightarrow> token_payload \<Rightarrow> string" where
  "generateToken L cfg payload = jwt_sign L payload (jwtSecret cfg) (jwtExpire cfg)"

text \<open>
  \<open>verifyToken\<close>: \<open>try { return jwt.verify(token, secret) } catch (error) { return null }\<close>.
  The result type keeps a branch for a throw (\<open>Inl\<close>), so that "never throws" is a
  statement about the function and not about its type; \<open>null\<close> is \<open>None\<close>.
\<close>

definition try_catch :: "failure + 'a \<Rightarrow> (failure \<Rightarrow> failure + 'a) \<Rightarrow> failure + 'a" where
  "try_catch body handler = (case body of Inl e \<Rightarrow> handler e | Inr v \<Rightarrow> Inr v)"

definition verifyToken :: "libs \<Rightarrow> config \<Rightarrow> string \<Rightarrow> failure + token_payload option" where
  "verifyToken L cfg token =
     try_catch (map_sum id Some (jwt_verify L token (jwtSecret cfg))) (\<lambda>error. Inr None)"

section \<open>utils/sendToken.js\<close>

record cookie_options =
  httpOnly :: bool
  maxAge :: nat
  secure :: bool
  sameSite :: string

text \<open>
  The Express response being built: status (200 until set), the cookies set so far
  (name, value, options) and the JSON body once sent.
\<close>

record response =
  res_status :: nat
  res_cookies :: "(string \<times> string \<times> cookie_options) list"
  res_body :: "jsval option"

definition new_response :: response where
  "new_response = \<lparr>res_status = 200, res_cookies = [], res_body = None\<rparr>"

definition sendTokenCookie :: "libs \<Rightarrow> config \<Rightarrow> response \<Rightarrow> token_payload \<Rightarrow> response \<times> string" where
  "sendTokenCookie L cfg res tokenPayload =
     (let token = generateToken L cfg tokenPayload
      in (res\<lparr>res_cookies := res_cookies res @
            [(''token'', token,
              \<lparr>httpOnly = True,
               maxAge = 7 * 24 * 60 * 60 * 1000,
               secure = (env cfg = ''production''),
               sameSite = ''lax''\<rparr>)]\<rparr>,
          token))"

definition sendUserResponse :: "libs \<Rightarrow> config \<Rightarrow> response \<Rightarrow> user \<Rightarrow> nat \<Rightarrow> response" where
  "sendUserResponse L cfg res u statusCode =
     (let res1 = fst (sendTokenCookie L cfg res
                   \<lparr>tp_id = u_id u, accountType = ''user'', tp_role = role_string (role u)\<rparr>)
      in res1\<lparr>res_status := statusCode,
              res_body := Some (JObject [(''success'', JBool True), (''user'', JObject (toJSON u))])\<rparr>)"

section \<open>User documents in the collection\<close>

text \<open>
  The \<open>users\<close> collection is the list of its documents; \<open>findOne\<close> and \<open>findById\<close>
  return the first document that matches, or \<open>null\<close>. The filter of
  \<open>User.findOne({ email })\<close> is cast through the schema: the setters \<open>lowercase\<close> and
  \<open>trim\<close> of the path \<open>email\<close> are applied to the string before it is compared.
\<close>

definition set_email :: "string \<Rightarrow> string" where
  "set_email e = trim (toLowerCase e)"

definition findOne_email :: "user list \<Rightarrow> string \<Rightarrow> user option" where
  "findOne_email users e = find (\<lambda>u. email u = set_email e) users"

definition findById_user :: "user list \<Rightarrow> objid \<Rightarrow> user option" where
  "findById_user users i = find (\<lambda>u. u_id u = i) users"

text \<open>The value of a body field that has passed the truthiness test.\<close>

definition field_value :: "string option \<Rightarrow> string" where
  "field_value v = (case v of None \<Rightarrow> [] | Some s \<Rightarrow> s)"

text \<open>
  \<open>userSchema.methods.verifyPassword\<close>: \<open>bcrypt.compare(password, this.passwordHash)\<close>;
  the library rejects a missing hash.
\<close>

definition verifyPassword :: "libs \<Rightarrow> user \<Rightarrow> string \<Rightarrow> failure + bool" where
  "verifyPassword L u password =
     (case passwordHash u of
        None \<Rightarrow> Inl (LibError ''Illegal arguments'')
      | Some h \<Rightarrow> Inr (bcrypt_compare L password h))"

text \<open>
  The validator of \<open>email\<close> is the test of the regular expression
  \<open>^[^\s@]+@[^\s@]+\.[^\s@]+$\<close>: no white space, exactly one \<open>@\<close> with something
  before it, and after it a dot that is neither the first nor the last character.
\<close>

definition valid_email :: "string \<Rightarrow> bool" where
  "valid_email s =
     (let before = takeWhile (\<lambda>c. c \<noteq> CHR ''@'') s;
          rest = dropWhile (\<lambda>c. c \<noteq> CHR ''@'') s
      in before \<noteq> [] \<and> rest \<noteq> [] \<and> CHR ''@'' \<notin> set (tl rest) \<and> list_ex is_space s = False
         \<and> CHR ''.'' \<in> set (butlast (tl (tl rest))))"

text \<open>
  The validators that \<open>save\<close> runs, path by path in the order of the schema: \<open>email\<close>
  (required, the expression above), \<open>passwordHash\<close> (at least 6 characters when set),
  \<open>name\<close> (required, 2 to 100 characters), \<open>bio\<close> (at most 500 characters). The
  result is the message of the first failing validator of each failing path; \<open>role\<close>
  is in its \<open>enum\<close> by its type.
\<close>

definition validate_user :: "user \<Rightarrow> string list" where
  "validate_user u =
     (if email u = [] then [''Email is required'']
      else if valid_email (email u) then [] else [''Please provide a valid email address''])
     @ (case passwordHash u of
          None \<Rightarrow> []
        | Some h \<Rightarrow> if length h < 6 then [''Password must be at least 6 characters long''] else [])
     @ (if name u = [] then [''Name is required'']
        else if length (name u) < 2 then [''Name must be at least 2 characters long'']
        else if length (name u) > 100 then [''Name cannot exceed 100 characters'']
        else [])
     @ (if length (bio u) > 500 then [''Bio cannot exceed 500 characters''] else [])"

text \<open>
  The hook of the option \<open>timestamps\<close>: at time \<open>now\<close>, a loaded document that has a
  modified path gets \<open>updatedAt\<close> stamped. \<open>orig\<close> is the document as it was loaded
  and \<open>u\<close> the document being saved; a path is modified when its value differs.
\<close>

definition stamp_updatedAt :: "nat \<Rightarrow> user \<Rightarrow> user \<Rightarrow> user" where
  "stamp_updatedAt now orig u = (if u = orig then u else u\<lparr>u_updatedAt := now\<rparr>)"

text \<open>
  The \<open>pre('save')\<close> hook of the model: the password is hashed again only when the path
  \<open>passwordHash\<close> was modified and is set.
\<close>

definition pre_save :: "libs \<Rightarrow> user \<Rightarrow> user \<Rightarrow> user" where
  "pre_save L orig u =
     (if passwordHash u = passwordHash orig \<or> falsy (passwordHash u) then u
      else u\<lparr>passwordHash := Some (bcrypt_hash L (field_value (passwordHash u)) 10)\<rparr>)"

text \<open>Writing a document back: the first stored document with its \<open>_id\<close> is replaced.\<close>

primrec replace_user :: "user \<Rightarrow> user list \<Rightarrow> user list" where
  "replace_user u [] = []"
| "replace_user u (v # vs) = (if u_id v = u_id u then u # vs else v # replace_user u vs)"

text \<open>
  \<open>user.save()\<close> of a document loaded from the collection as \<open>orig\<close>: validation, the
  two hooks, the write. A failed validation rejects and writes nothing.
\<close>

definition save :: "libs \<Rightarrow> nat \<Rightarrow> user list \<Rightarrow> user \<Rightarrow> user \<Rightarrow> user list \<times> (failure + user)" where
  "save L now users orig u =
     (if validate_user u = []
      then (let u' = pre_save L orig (stamp_updatedAt now orig u) in (replace_user u' users, Inr u'))
      else (users, Inl (ValidationError (validate_user u))))"

section \<open>controllers/auth.controller.js\<close>

text \<open>
  \<open>exports.login\<close>, with \<open>const { email, password } = req.body\<close>.
  \<open>return next(new AppError(...))\<close> is the result \<open>Inl\<close>; the handler writes nothing
  to the collection.
\<close>

definition login :: "libs \<Rightarrow> config \<Rightarrow> user list \<Rightarrow> req_body \<Rightarrow> failure + response" where
  "login L cfg users body =
     (let email_field = body ''email''; password_field = body ''password''
      in if falsy email_field \<or> falsy password_field
         then Inl (AppError ''Please provide email and password'' 400)
         else
           (case findOne_email users (field_value email_field) of
              None \<Rightarrow> Inl (AppError ''Invalid credentials'' 401)
            | Some u \<Rightarrow>
                if falsy (passwordHash u) then Inl (AppError ''Invalid credentials'' 401)
                else if \<not> isActive u then Inl (AppError ''Account is deactivated'' 401)
                else
                  (case verifyPassword L u (field_value password_field) of
                     Inl e \<Rightarrow> Inl e
                   | Inr isValid \<Rightarrow>
                       if \<not> isValid then Inl (AppError ''Invalid credentials'' 401)
                       else Inr (sendUserResponse L cfg new_response u 200))))"

text \<open>
  \<open>exports.updateProfile\<close> at time \<open>now\<close>, with \<open>const { name, bio } = req.body\<close>;
  \<open>uid\<close> is \<open>req.user._id\<close>. \<open>if (name) user.name = name\<close> goes through the setter
  \<open>trim\<close>; \<open>if (bio !== undefined) user.bio = bio\<close>. The result is the collection
  afterwards and the response or the error.
\<close>

definition updateProfile ::
  "libs \<Rightarrow> nat \<Rightarrow> user list \<Rightarrow> objid \<Rightarrow> req_body \<Rightarrow> user list \<times> (failure + response)" where
  "updateProfile L now users uid body =
     (let name_field = body ''name''; bio_field = body ''bio''
      in case findById_user users uid of
           None \<Rightarrow> (users, Inl (AppError ''User not found'' 404))
         | Some u \<Rightarrow>
             (let u1 = (if \<not> falsy name_field then u\<lparr>name := trim (field_value name_field)\<rparr> else u);
                  u2 = (if bio_field \<noteq> None then u1\<lparr>bio := field_value bio_field\<rparr> else u1)
              in (case save L now users u u2 of
                    (users', Inl e) \<Rightarrow> (users', Inl e)
                  | (users', Inr saved) \<Rightarrow>
                      (users',
                       Inr (new_response\<lparr>res_body :=
                         Some (JObject [(''success'', JBool True), (''user'', JObject (toJSON saved))])\<rparr>)))))"

section \<open>The auth middleware\<close>

text \<open>
  Modelled from the spec: the middleware \<open>auth\<close> of \<open>middleware/auth.middleware\<close>, which
  the routes put in front of every protected handler and which is not among the
  sources. The spec's words: the session is resolved from the token by the session-token
  verification; a missing, invalid or expired session is \<open>Unauthenticated\<close>, status 401,
  with no side effects; otherwise the request goes on to the handler with the identity.
  \<open>cookie\<close> is the \<open>token\<close> cookie of the request, \<open>st\<close> the persistent state.
\<close>

definition auth ::
  "libs \<Rightarrow> config \<Rightarrow> string option \<Rightarrow> (token_payload \<Rightarrow> 's \<Rightarrow> 's \<times> (failure + response)) \<Rightarrow>
     's \<Rightarrow> 's \<times> (failure + response)" where
  "auth L cfg cookie handler st =
     (case cookie of
        None \<Rightarrow> (st, Inl (AppError ''Unauthenticated'' 401))
      | Some token \<Rightarrow>
          (case verifyToken L cfg token of
             Inl e \<Rightarrow> (st, Inl e)
           | Inr None \<Rightarrow> (st, Inl (AppError ''Unauthenticated'' 401))
           | Inr (Some decoded) \<Rightarrow> handler decoded st))"

section \<open>The notification model (docs/NOTIFICATION_SYSTEM.md, step 1)\<close>

datatype recipient_type = Student | University

record notification_data =
  eventId :: "objid option"
  applicationId :: "objid option"
  universityId :: "objid option"
  studentId :: "objid option"

text \<open>
  A stored notification: \<open>_id\<close>, the declared paths, and the stamps \<open>createdAt\<close> and
  \<open>updatedAt\<close> of the schema option \<open>timestamps\<close>. The path \<open>type\<close> is a string
  checked against the schema's \<open>enum\<close> when the document is created.
\<close>

record notification =
  n_id :: objid
  recipientId :: objid
  recipientType :: recipient_type
  n_type :: string
  title :: string
  message :: string
  data :: notification_data
  isRead :: bool
  createdAt :: nat
  updatedAt :: nat

text \<open>The \<open>notificationData\<close> argument of the service: what is spread into \<open>create\<close>.\<close>

record notification_input =
  ni_type :: string
  ni_title :: string
  ni_message :: string
  ni_data :: notification_data

definition notification_types :: "string list" where
  "notification_types =
     [''new_event'', ''new_application'', ''application_accepted'', ''application_rejected'']"

text \<open>
  The schema's validators on the paths the service fills: \<open>type\<close> required and in the
  \<open>enum\<close>, \<open>title\<close> required with \<open>maxlength\<close> 200, \<open>message\<close> required with
  \<open>maxlength\<close> 500. The result is the message of each failing path.
\<close>

definition validate_notification :: "notification_input \<Rightarrow> string list" where
  "validate_notification inp =
     (if ni_type inp \<in> set notification_types then [] else [''type is not a valid enum value''])
     @ (if ni_title inp = [] then [''title is required'']
        else if length (ni_title inp) > 200 then [''title is longer than the maximum allowed length (200)'']
        else [])
     @ (if ni_message inp = [] then [''message is required'']
        else if length (ni_message inp) > 500
        then [''message is longer than the maximum allowed length (500)'']
        else [])"

text \<open>A new \<open>_id\<close>: one that no stored notification has.\<close>

definition new_objid :: "notification list \<Rightarrow> objid" where
  "new_objid store = Suc (fold max (map n_id store) 0)"

text \<open>
  \<open>Notification.create({ recipientId, recipientType, ...notificationData })\<close> at time
  \<open>now\<close>: the validated document is inserted with \<open>isRead\<close> at its default
  \<open>false\<close> and both stamps at \<open>now\<close>; a failed validation rejects and inserts nothing.
\<close>

definition Notification_create ::
  "nat \<Rightarrow> notification list \<Rightarrow> objid \<Rightarrow> recipient_type \<Rightarrow> notification_input \<Rightarrow>
     notification list \<times> (failure + notification)" where
  "Notification_create now store rid rtype inp =
     (if validate_notification inp = []
      then
        (let n = \<lparr>n_id = new_objid store, recipientId = rid, recipientType = rtype,
                  n_type = ni_type inp, title = ni_title inp, message = ni_message inp,
                  data = ni_data inp, isRead = False, createdAt = now, updatedAt = now\<rparr>
         in (store @ [n], Inr n))
      else (store, Inl (ValidationError (validate_notification inp))))"

text \<open>The update operators of the ODM on the collection.\<close>

primrec update_first ::
  "(notification \<Rightarrow> bool) \<Rightarrow> (notification \<Rightarrow> notification) \<Rightarrow> notification list \<Rightarrow> notification list" where
  "update_first P f [] = []"
| "update_first P f (n # ns) = (if P n then f n # ns else n # update_first P f ns)"

definition updateMany ::
  "(notification \<Rightarrow> bool) \<Rightarrow> (notification \<Rightarrow> notification) \<Rightarrow> notification list \<Rightarrow> notification list" where
  "updateMany P f ns = map (\<lambda>n. if P n then f n else n) ns"

primrec delete_first :: "(notification \<Rightarrow> bool) \<Rightarrow> notification list \<Rightarrow> notification list" where
  "delete_first P [] = []"
| "delete_first P (n # ns) = (if P n then ns else n # delete_first P ns)"

definition countDocuments :: "(notification \<Rightarrow> bool) \<Rightarrow> notification list \<Rightarrow> nat" where
  "countDocuments P ns = length (filter P ns)"

text \<open>
  The update \<open>{ isRead: true }\<close> as the ODM sends it at time \<open>now\<close>: under the option
  \<open>timestamps\<close> every update operation also sets \<open>updatedAt\<close>.
\<close>

definition set_read :: "nat \<Rightarrow> notification \<Rightarrow> notification" where
  "set_read now n = n\<lparr>isRead := True, updatedAt := now\<rparr>"

section \<open>The other collections\<close>

text \<open>
  Modelled from the spec: the Student, University, Event and Application entities, whose
  schema files are not among the sources. Each record has the fields that the
  notification service and the controllers read or write; the application's status is
  one of pending, accepted, rejected, checked by the \<open>enum\<close> of its path when the
  document is saved, the application carries the \<open>updatedAt\<close> stamp of the timestamps
  that the README lists for it, and a student's interest relation is the list \<open>interestedUniversities\<close> that
  step 2 of the guide adds.
\<close>

record student =
  s_id :: objid
  s_name :: string
  interestedUniversities :: "objid list"

record university =
  univ_id :: objid
  univ_name :: string

record event =
  e_id :: objid
  e_universityId :: objid
  e_title :: string

datatype app_status = pending | accepted | rejected

record application =
  a_id :: objid
  a_eventId :: objid
  a_studentId :: objid
  status :: app_status
  a_updatedAt :: nat

definition status_string :: "app_status \<Rightarrow> string" where
  "status_string st =
     (case st of pending \<Rightarrow> ''pending'' | accepted \<Rightarrow> ''accepted'' | rejected \<Rightarrow> ''rejected'')"

text \<open>The value of the path \<open>status\<close> for a string, when the \<open>enum\<close> has it.\<close>

definition parse_status :: "string \<Rightarrow> app_status option" where
  "parse_status s =
     (if s = ''pending'' then Some pending
      else if s = ''accepted'' then Some accepted
      else if s = ''rejected'' then Some rejected
      else None)"

text \<open>
  The persistent state: the collections, and the log of what was emitted to which
  live-channel room (\<open>io.to(room).emit('notification:new', n)\<close>).
\<close>

datatype room = UserRoom objid | RoleRoom string

record db =
  students :: "student list"
  events :: "event list"
  applications :: "application list"
  notifications :: "notification list"
  emitted :: "(room \<times> notification) list"

section \<open>services/notification.service.js (step 4)\<close>

text \<open>
  \<open>sendToUser\<close>: create, then emit to the recipient's room. The operations take the
  time \<open>now\<close> and the state, and return the state afterwards with the value or the
  error.
\<close>

definition sendToUser ::
  "nat \<Rightarrow> db \<Rightarrow> objid \<Rightarrow> recipient_type \<Rightarrow> notification_input \<Rightarrow> db \<times> (failure + notification)" where
  "sendToUser now d rid rtype inp =
     (case Notification_create now (notifications d) rid rtype inp of
        (store, Inl e) \<Rightarrow> (d\<lparr>notifications := store\<rparr>, Inl e)
      | (store, Inr n) \<Rightarrow>
          (d\<lparr>notifications := store, emitted := emitted d @ [(UserRoom rid, n)]\<rparr>, Inr n))"

text \<open>
  \<open>Promise.all(recipientIds.map(recipientId => Notification.create(...)))\<close>: one
  \<open>create\<close> per recipient, in the order of the list; the first rejection is the
  rejection of the whole.
\<close>

primrec create_each ::
  "nat \<Rightarrow> recipient_type \<Rightarrow> notification_input \<Rightarrow> objid list \<Rightarrow> notification list \<Rightarrow>
     notification list \<times> (failure + notification list)" where
  "create_each now rtype inp [] store = (store, Inr [])"
| "create_each now rtype inp (rid # rids) store =
     (case Notification_create now store rid rtype inp of
        (store1, Inl e) \<Rightarrow> (store1, Inl e)
      | (store1, Inr n) \<Rightarrow>
          (case create_each now rtype inp rids store1 of
             (store2, Inl e) \<Rightarrow> (store2, Inl e)
           | (store2, Inr ns) \<Rightarrow> (store2, Inr (n # ns))))"

definition sendToMultipleUsers ::
  "nat \<Rightarrow> db \<Rightarrow> objid list \<Rightarrow> recipient_type \<Rightarrow> notification_input \<Rightarrow>
     db \<times> (failure + notification list)" where
  "sendToMultipleUsers now d recipientIds rtype inp =
     (case create_each now rtype inp recipientIds (notifications d) of
        (store, Inl e) \<Rightarrow> (d\<lparr>notifications := store\<rparr>, Inl e)
      | (store, Inr created) \<Rightarrow>
          (d\<lparr>notifications := store,
             emitted := emitted d @ map (\<lambda>(rid, n). (UserRoom rid, n)) (zip recipientIds created)\<rparr>,
           Inr created))"

definition quoted :: "string \<Rightarrow> string" where
  "quoted s = [CHR 0x22] @ s @ [CHR 0x22]"

definition new_event_input :: "event \<Rightarrow> university \<Rightarrow> notification_input" where
  "new_event_input ev uni =
     \<lparr>ni_type = ''new_event'',
      ni_title = ''New Event Available'',
      ni_message = univ_name uni @ '' has posted a new event: '' @ quoted (e_title ev),
      ni_data = \<lparr>eventId = Some (e_id ev), applicationId = None,
                 universityId = Some (univ_id uni), studentId = None\<rparr>\<rparr>"

text \<open>
  \<open>notifyNewEvent\<close>: \<open>Student.find({ interestedUniversities: university._id })\<close>
  selects the students whose array holds the id; nobody interested returns \<open>[]\<close>
  at once.
\<close>

definition notifyNewEvent ::
  "nat \<Rightarrow> db \<Rightarrow> event \<Rightarrow> university \<Rightarrow> db \<times> (failure + notification list)" where
  "notifyNewEvent now d ev uni =
     (let interestedStudents = filter (\<lambda>s. univ_id uni \<in> set (interestedUniversities s)) (students d)
      in if length interestedStudents = 0 then (d, Inr [])
         else
           (let studentIds = map s_id interestedStudents
            in sendToMultipleUsers now d studentIds Student (new_event_input ev uni)))"

definition notifyNewApplication ::
  "nat \<Rightarrow> db \<Rightarrow> application \<Rightarrow> student \<Rightarrow> event \<Rightarrow> db \<times> (failure + notification)" where
  "notifyNewApplication now d app stud ev =
     sendToUser now d (e_universityId ev) University
       \<lparr>ni_type = ''new_application'',
        ni_title = ''New Application Received'',
        ni_message = s_name stud @ '' has applied to your event: '' @ quoted (e_title ev),
        ni_data = \<lparr>eventId = Some (e_id ev), applicationId = Some (a_id app),
                   universityId = None, studentId = Some (s_id stud)\<rparr>\<rparr>"

text \<open>
  \<open>statusMessages[status]\<close> has the keys \<open>accepted\<close> and \<open>rejected\<close>; any other key
  reads \<open>undefined\<close>, which the template string prints as such. \<open>status\<close> is the
  string of the request.
\<close>

definition statusMessages :: "string \<Rightarrow> string" where
  "statusMessages st =
     (if st = ''accepted'' then ''Congratulations! Your application has been accepted''
      else if st = ''rejected'' then ''Your application has been reviewed''
      else ''undefined'')"

definition application_status_input :: "application \<Rightarrow> event \<Rightarrow> string \<Rightarrow> notification_input" where
  "application_status_input app ev st =
     \<lparr>ni_type = ''application_'' @ st,
      ni_title = (if st = ''accepted'' then ''Application Accepted'' else ''Application Update''),
      ni_message = statusMessages st @ '' for '' @ quoted (e_title ev),
      ni_data = \<lparr>eventId = Some (e_id ev), applicationId = Some (a_id app),
                 universityId = None, studentId = None\<rparr>\<rparr>"

definition notifyApplicationStatus ::
  "nat \<Rightarrow> db \<Rightarrow> application \<Rightarrow> event \<Rightarrow> string \<Rightarrow> db \<times> (failure + notification)" where
  "notifyApplicationStatus now d app ev st =
     sendToUser now d (a_studentId app) Student (application_status_input app ev st)"

text \<open>
  The listing. \<open>page\<close>, \<open>limit\<close> and \<open>unreadOnly\<close> default to 1, 20 and false.
  The query is \<open>find(query).sort({ createdAt: -1 }).skip((page - 1) * limit).limit(limit)\<close>:
  the database refuses a negative \<open>skip\<close>; a \<open>limit\<close> of 0 is no limit and a
  negative one is read as its absolute value. Documents with equal \<open>createdAt\<close> come
  out latest-inserted first. \<open>populate\<close> only decorates the references of the
  documents returned and is left out.
\<close>

record list_options =
  page :: int
  limit :: int
  unreadOnly :: bool

definition default_options :: list_options where
  "default_options = \<lparr>page = 1, limit = 20, unreadOnly = False\<rparr>"

text \<open>\<open>Math.ceil(total / limit)\<close> as the number JavaScript computes.\<close>

datatype js_number = Num int | PosInfinity | NaN

definition ceil_quotient :: "nat \<Rightarrow> int \<Rightarrow> js_number" where
  "ceil_quotient t l =
     (if l = 0 then (if t = 0 then NaN else PosInfinity)
      else Num (- ((- int t) div l)))"

record pagination =
  pg_page :: int
  pg_limit :: int
  total :: nat
  pages :: js_number

record listing =
  l_notifications :: "notification list"
  l_pagination :: pagination
  unreadCount :: nat

definition matches :: "objid \<Rightarrow> bool \<Rightarrow> notification \<Rightarrow> bool" where
  "matches userId unread n = (recipientId n = userId \<and> (if unread then isRead n = False else True))"

definition skip_limit :: "int \<Rightarrow> int \<Rightarrow> notification list \<Rightarrow> failure + notification list" where
  "skip_limit sk lim ns =
     (if sk < 0 then Inl (QueryError ''skip must be non-negative'')
      else Inr (let rest = drop (nat sk) ns in if lim = 0 then rest else take (nat \<bar>lim\<bar>) rest))"

definition getUserNotifications :: "db \<Rightarrow> objid \<Rightarrow> list_options \<Rightarrow> failure + listing" where
  "getUserNotifications d userId options =
     (let query = matches userId (unreadOnly options);
          sorted_desc = rev (sort_key createdAt (filter query (notifications d)))
      in case skip_limit ((page options - 1) * limit options) (limit options) sorted_desc of
           Inl e \<Rightarrow> Inl e
         | Inr found \<Rightarrow>
             (let tot = countDocuments query (notifications d);
                  unread = countDocuments (\<lambda>n. recipientId n = userId \<and> isRead n = False) (notifications d)
              in Inr \<lparr>l_notifications = found,
                      l_pagination = \<lparr>pg_page = page options, pg_limit = limit options,
                                       total = tot, pages = ceil_quotient tot (limit options)\<rparr>,
                      unreadCount = unread\<rparr>))"

section \<open>routes/notification.routes.js (step 6)\<close>

text \<open>
  Each handler runs behind \<open>protect\<close>; \<open>uid\<close> is \<open>req.user._id\<close>. The value is the
  \<open>data\<close> of the JSON response. \<open>parseInt(x) || d\<close> on a query parameter: \<open>None\<close> is
  \<open>NaN\<close>, and 0 is falsy like \<open>NaN\<close>.
\<close>

definition or_default :: "int option \<Rightarrow> int \<Rightarrow> int" where
  "or_default parsed d = (case parsed of None \<Rightarrow> d | Some k \<Rightarrow> if k = 0 then d else k)"

definition route_list ::
  "db \<Rightarrow> objid \<Rightarrow> int option \<Rightarrow> int option \<Rightarrow> string option \<Rightarrow> failure + listing" where
  "route_list d uid pageParam limitParam unreadParam =
     getUserNotifications d uid
       \<lparr>page = or_default pageParam 1, limit = or_default limitParam 20,
        unreadOnly = (unreadParam = Some ''true'')\<rparr>"

text \<open>
  \<open>PATCH /:id/read\<close> at time \<open>now\<close>:
  \<open>findOneAndUpdate({ _id, recipientId }, { isRead: true }, { new: true })\<close>;
  the answer carries the updated document, or \<open>null\<close> when nothing matched.
\<close>

definition route_mark_read :: "nat \<Rightarrow> db \<Rightarrow> objid \<Rightarrow> objid \<Rightarrow> db \<times> notification option" where
  "route_mark_read now d uid nid =
     (let sel = (\<lambda>n. n_id n = nid \<and> recipientId n = uid)
      in (d\<lparr>notifications := update_first sel (set_read now) (notifications d)\<rparr>,
          map_option (set_read now) (find sel (notifications d))))"

text \<open>\<open>PATCH /read-all\<close>: \<open>updateMany({ recipientId, isRead: false }, { isRead: true })\<close>.\<close>

definition route_mark_all_read :: "nat \<Rightarrow> db \<Rightarrow> objid \<Rightarrow> db" where
  "route_mark_all_read now d uid =
     d\<lparr>notifications :=
         updateMany (\<lambda>n. recipientId n = uid \<and> isRead n = False) (set_read now) (notifications d)\<rparr>"

definition route_unread_count :: "db \<Rightarrow> objid \<Rightarrow> nat" where
  "route_unread_count d uid =
     countDocuments (\<lambda>n. recipientId n = uid \<and> isRead n = False) (notifications d)"

definition route_delete :: "db \<Rightarrow> objid \<Rightarrow> objid \<Rightarrow> db" where
  "route_delete d uid nid =
     d\<lparr>notifications := delete_first (\<lambda>n. n_id n = nid \<and> recipientId n = uid) (notifications d)\<rparr>"

section \<open>config/socket.config.js (step 3)\<close>

text \<open>
  A connection is accepted by the middleware of \<open>io.use\<close>: the handshake's token must
  be present and verify; the socket then carries \<open>userId\<close> and \<open>userType\<close>.
\<close>

record socket =
  userId :: objid
  userType :: string

definition socket_handshake :: "libs \<Rightarrow> config \<Rightarrow> string option \<Rightarrow> failure + socket" where
  "socket_handshake L cfg token =
     (if falsy token then Inl (LibError ''Authentication token required'')
      else
        try_catch
          (map_sum id (\<lambda>decoded. \<lparr>userId = tp_id decoded, userType = tp_role decoded\<rparr>)
             (jwt_verify L (field_value token) (jwtSecret cfg)))
          (\<lambda>err. Inl (LibError ''Invalid token'')))"

text \<open>
  \<open>socket.on('notification:read', ...)\<close> at time \<open>now\<close>:
  \<open>Notification.findByIdAndUpdate(notificationId, { isRead: true })\<close>.
\<close>

definition on_notification_read :: "nat \<Rightarrow> db \<Rightarrow> socket \<Rightarrow> objid \<Rightarrow> db" where
  "on_notification_read now d sock notificationId =
     d\<lparr>notifications :=
         update_first (\<lambda>n. n_id n = notificationId) (set_read now) (notifications d)\<rparr>"

text \<open>
  \<open>socket.on('notifications:readAll', ...)\<close>:
  \<open>updateMany({ recipientId: socket.userId, isRead: false }, { isRead: true })\<close>.
\<close>

definition on_notifications_readAll :: "nat \<Rightarrow> db \<Rightarrow> socket \<Rightarrow> db" where
  "on_notifications_readAll now d sock =
     d\<lparr>notifications :=
         updateMany (\<lambda>n. recipientId n = userId sock \<and> isRead n = False) (set_read now)
           (notifications d)\<rparr>"

section \<open>controllers/application.controller.js (step 8)\<close>

primrec replace_application :: "application \<Rightarrow> application list \<Rightarrow> application list" where
  "replace_application a [] = []"
| "replace_application a (b # bs) =
     (if a_id b = a_id a then a # bs else b # replace_application a bs)"

text \<open>
  \<open>exports.updateApplicationStatus\<close> at time \<open>now\<close>, with \<open>req.params.id\<close> and the
  string \<open>req.body.status\<close>. The application is looked up, its event is looked up,
  the status is assigned and saved: \<open>save\<close> refuses a string outside the \<open>enum\<close> and
  writes nothing, and stamps \<open>updatedAt\<close> when the status has changed. A notification
  follows for \<open>accepted\<close> and \<open>rejected\<close>; reading \<open>event.title\<close> of a missing event
  throws after the save. The value is the application of the response.
\<close>

definition updateApplicationStatus ::
  "nat \<Rightarrow> db \<Rightarrow> objid \<Rightarrow> string \<Rightarrow> db \<times> (failure + application)" where
  "updateApplicationStatus now d ident newStatus =
     (case find (\<lambda>a. a_id a = ident) (applications d) of
        None \<Rightarrow> (d, Inl (AppError ''Application not found'' 404))
      | Some app \<Rightarrow>
          (let ev = find (\<lambda>e. e_id e = a_eventId app) (events d)
           in case parse_status newStatus of
                None \<Rightarrow> (d, Inl (ValidationError [''status is not a valid enum value'']))
              | Some st \<Rightarrow>
                  (let app' = (if st = status app then app else app\<lparr>status := st, a_updatedAt := now\<rparr>);
                       d1 = d\<lparr>applications := replace_application app' (applications d)\<rparr>
                   in if newStatus = ''accepted'' \<or> newStatus = ''rejected'' then
                        (case ev of
                           None \<Rightarrow> (d1, Inl (TypeError ''Cannot read properties of null''))
                         | Some e \<Rightarrow>
                             (case notifyApplicationStatus now d1 app' e newStatus of
                                (d2, Inl err) \<Rightarrow> (d2, Inl err)
                              | (d2, Inr n) \<Rightarrow> (d2, Inr app')))
                      else (d1, Inr app'))))"

section \<open>Vocabulary of the properties\<close>

text \<open>
  The spec's condition for refusing a password login, for an email \<open>e\<close> and a
  password \<open>p\<close>: the account is absent, is inactive, or the password does not match
  the stored hash (an account without a stored hash matches no password).
\<close>

definition credentials_refused :: "libs \<Rightarrow> user list \<Rightarrow> string \<Rightarrow> string \<Rightarrow> bool" where
  "credentials_refused L users e p =
     (case findOne_email users e of
        None \<Rightarrow> True
      | Some u \<Rightarrow>
          (if isActive u
           then (case passwordHash u of None \<Rightarrow> True | Some h \<Rightarrow> h = [] \<or> bcrypt_compare L p h = False)
           else True))"

text \<open>
  Two states that differ at most in read flags and \<open>updatedAt\<close> stamps of
  notifications: the same collections and emitted log, and the same notifications in
  the same order once every read flag and every \<open>updatedAt\<close> is cleared. Two states
  that differ at most in \<open>updatedAt\<close> stamps of notifications are defined alike.
\<close>

definition unstamped :: "notification \<Rightarrow> notification" where
  "unstamped n = n\<lparr>updatedAt := 0\<rparr>"

definition unread_copy :: "notification \<Rightarrow> notification" where
  "unread_copy n = n\<lparr>isRead := False, updatedAt := 0\<rparr>"

definition untouched_but_read :: "db \<Rightarrow> db \<Rightarrow> bool" where
  "untouched_but_read d d' =
     (d'\<lparr>notifications := notifications d\<rparr> = d
      \<and> map unread_copy (notifications d') = map unread_copy (notifications d))"

definition untouched_but_stamps :: "db \<Rightarrow> db \<Rightarrow> bool" where
  "untouched_but_stamps d d' =
     (d'\<lparr>notifications := notifications d\<rparr> = d
      \<and> map unstamped (notifications d') = map unstamped (notifications d))"

section \<open>Concrete values for instances\<close>

text \<open>
  A stand-in for the libraries, used only where a statement is instantiated: the token
  \<open>good\<close> verifies and every other token is refused; a hash is the password behind
  a \<open>#\<close>.
\<close>

definition example_libs :: libs where
  "example_libs =
     \<lparr>jwt_sign = (\<lambda>payload secret expires. ''good''),
      jwt_verify = (\<lambda>token secret.
        if token = ''good'' then Inr \<lparr>tp_id = 1, accountType = ''user'', tp_role = ''user''\<rparr>
        else Inl (LibError ''jwt malformed'')),
      bcrypt_compare = (\<lambda>password hash. hash = CHR ''#'' # password),
      bcrypt_hash = (\<lambda>password rounds. CHR ''#'' # password)\<rparr>"

definition example_config :: "string \<Rightarrow> config" where
  "example_config e = \<lparr>env = e, jwtSecret = ''secret'', jwtExpire = ''7d''\<rparr>"

definition example_user :: user where
  "example_user =
     \<lparr>u_id = 1, email = ''ana@uni.ge'', passwordHash = Some ''#secret1'', googleId = None,
      name = ''Ana'', bio = [], role = RoleUser, isActive = True,
      u_createdAt = 3, u_updatedAt = 3, u_v = 0\<rparr>"

definition example_admin :: user where
  "example_admin =
     \<lparr>u_id = 2, email = ''root@uni.ge'', passwordHash = None, googleId = Some ''g-77'',
      name = ''Root'', bio = ''ops'', role = RoleAdmin, isActive = True,
      u_createdAt = 1, u_updatedAt = 2, u_v = 3\<rparr>"

definition example_students :: "student list" where
  "example_students =
     [\<lparr>s_id = 1, s_name = ''Nino'', interestedUniversities = [100, 200]\<rparr>,
      \<lparr>s_id = 2, s_name = ''Gio'', interestedUniversities = [200]\<rparr>,
      \<lparr>s_id = 3, s_name = ''Eka'', interestedUniversities = [100]\<rparr>]"

definition example_university :: university where
  "example_university = \<lparr>univ_id = 100, univ_name = ''TSU''\<rparr>"

definition example_event :: event where
  "example_event = \<lparr>e_id = 10, e_universityId = 100, e_title = ''Open Day''\<rparr>"

definition example_long_event :: event where
  "example_long_event = \<lparr>e_id = 11, e_universityId = 100, e_title = replicate 471 (CHR ''a'')\<rparr>"

definition example_application :: application where
  "example_application =
     \<lparr>a_id = 50, a_eventId = 10, a_studentId = 1, status = accepted, a_updatedAt = 4\<rparr>"

definition example_db :: db where
  "example_db =
     \<lparr>students = example_students, events = [example_event],
      applications = [example_application], notifications = [], emitted = []\<rparr>"

definition example_note :: "objid \<Rightarrow> objid \<Rightarrow> bool \<Rightarrow> nat \<Rightarrow> notification" where
  "example_note i r b t =
     \<lparr>n_id = i, recipientId = r, recipientType = Student, n_type = ''new_event'',
      title = ''New Event Available'', message = ''TSU has posted a new event'',
      data = \<lparr>eventId = Some 10, applicationId = None, universityId = Some 100, studentId = None\<rparr>,
      isRead = b, createdAt = i, updatedAt = t\<rparr>"

definition example_inbox :: db where
  "example_inbox =
     example_db\<lparr>notifications :=
       [example_note 1 2 False 1, example_note 2 1 False 2, example_note 3 1 True 5,
        example_note 4 1 False 4]\<rparr>"

section \<open>Properties of the user serialisation and the session cookie\<close>

lemma delete_key_absent: "\<not> has_key k (delete_key k obj)"
  by (auto simp: has_key_def delete_key_def)

lemma delete_key_other: "k' \<noteq> k \<Longrightarrow> has_key k' (delete_key k obj) = has_key k' obj"
  by (auto simp: has_key_def delete_key_def)

lemma set_delete_key: "set (delete_key k obj) = {kv \<in> set obj. fst kv \<noteq> k}"
  by (auto simp: delete_key_def)

text \<open>
  C10. For every user document, also one with a stored password hash, the object that
  \<open>toJSON\<close> returns has no key \<open>passwordHash\<close> and no key \<open>__v\<close>, and holds
  exactly the other entries of \<open>toObject\<close>; the body that \<open>sendUserResponse\<close> sends
  carries the user in this form.
\<close>

theorem toJSON_omits_passwordHash_and_version:
  "\<not> has_key ''passwordHash'' (toJSON u)
   \<and> \<not> has_key ''__v'' (toJSON u)
   \<and> set (toJSON u) = {kv \<in> set (toObject u). fst kv \<noteq> ''passwordHash'' \<and> fst kv \<noteq> ''__v''}
   \<and> res_body (sendUserResponse L cfg res u code) =
        Some (JObject [(''success'', JBool True), (''user'', JObject (toJSON u))])"
proof -
  have pw: "\<not> has_key ''passwordHash'' (toJSON u)"
    unfolding toJSON_def by (simp add: delete_key_other delete_key_absent)
  have v: "\<not> has_key ''__v'' (toJSON u)"
    unfolding toJSON_def by (rule delete_key_absent)
  have rest: "set (toJSON u) = {kv \<in> set (toObject u). fst kv \<noteq> ''passwordHash'' \<and> fst kv \<noteq> ''__v''}"
    unfolding toJSON_def by (auto simp: set_delete_key)
  have body: "res_body (sendUserResponse L cfg res u code) =
        Some (JObject [(''success'', JBool True), (''user'', JObject (toJSON u))])"
    by (simp add: sendUserResponse_def Let_def)
  from pw v rest body show ?thesis by blast
qed

lemma sendTokenCookie_cookies:
  "res_cookies (fst (sendTokenCookie L cfg res p)) =
     res_cookies res @
       [(''token'', generateToken L cfg p,
         \<lparr>httpOnly = True, maxAge = 604800000, secure = (env cfg = ''production''),
          sameSite = ''lax''\<rparr>)]"
  by (simp add: sendTokenCookie_def Let_def)

text \<open>
  C7, as the code has it. Every cookie that \<open>sendTokenCookie\<close> sets, and so the one
  that \<open>sendUserResponse\<close> sets on a successful login, is named \<open>token\<close>, is
  HTTP-only, has a \<open>maxAge\<close> of 7 days (604800000 ms) and same-site \<open>lax\<close>; its
  \<open>secure\<close> flag is set exactly when the environment is \<open>production\<close>.
\<close>

theorem session_cookie_options:
  "res_cookies (fst (sendTokenCookie L cfg res p)) =
     res_cookies res @
       [(''token'', generateToken L cfg p,
         \<lparr>httpOnly = True, maxAge = 7 * 24 * 3600 * 1000, secure = (env cfg = ''production''),
          sameSite = ''lax''\<rparr>)]
   \<and> res_cookies (sendUserResponse L cfg res u code) =
     res_cookies res @
       [(''token'',
         generateToken L cfg \<lparr>tp_id = u_id u, accountType = ''user'', tp_role = role_string (role u)\<rparr>,
         \<lparr>httpOnly = True, maxAge = 7 * 24 * 3600 * 1000, secure = (env cfg = ''production''),
          sameSite = ''lax''\<rparr>)]"
  by (simp add: sendUserResponse_def Let_def sendTokenCookie_cookies)

text \<open>
  C7 as stated fails: in the environment \<open>test\<close>, which is not \<open>development\<close>, the
  cookie of a successful authentication is not secure.
\<close>

theorem secure_outside_development_counterexample:
  "env (example_config ''test'') \<noteq> ''development''
   \<and> res_cookies (sendUserResponse example_libs (example_config ''test'') new_response example_user 200) =
       [(''token'', ''good'',
         \<lparr>httpOnly = True, maxAge = 604800000, secure = False, sameSite = ''lax''\<rparr>)]"
  by (simp add: sendUserResponse_def sendTokenCookie_def generateToken_def Let_def
      example_config_def example_libs_def new_response_def)

section \<open>Properties of the session verification\<close>

lemma verifyToken_cases:
  "verifyToken L cfg token =
     (case jwt_verify L token (jwtSecret cfg) of Inl e \<Rightarrow> Inr None | Inr p \<Rightarrow> Inr (Some p))"
  by (simp add: verifyToken_def try_catch_def split: sum.splits)

text \<open>
  C6. For every token string, whatever \<open>jwt.verify\<close> does with it, \<open>verifyToken\<close>
  returns: a decoded payload when the library returns one, \<open>null\<close> exactly when the
  library throws; it never throws itself. On a protected route, a token whose
  verification fails yields status 401 and the state is the one before the request,
  whatever the handler behind the middleware would have done.
\<close>

theorem verifyToken_never_throws:
  "(\<exists>r. verifyToken L cfg token = Inr r)
   \<and> (verifyToken L cfg token = Inr None) = isl (jwt_verify L token (jwtSecret cfg))
   \<and> (\<forall>p. jwt_verify L token (jwtSecret cfg) = Inr p \<longrightarrow> verifyToken L cfg token = Inr (Some p))
   \<and> (verifyToken L cfg token = Inr None \<longrightarrow>
        (\<exists>msg. auth L cfg (Some token) handler st = (st, Inl (AppError msg 401))))"
  by (auto simp: verifyToken_cases auth_def split: sum.splits)

theorem verifyToken_never_throws_witness:
  "verifyToken example_libs (example_config ''production'') ''expired-or-garbage'' = Inr None
   \<and> verifyToken example_libs (example_config ''production'') ''good'' =
       Inr (Some \<lparr>tp_id = 1, accountType = ''user'', tp_role = ''user''\<rparr>)
   \<and> auth example_libs (example_config ''production'') (Some ''expired-or-garbage'')
        (\<lambda>p st. (Suc st, Inr new_response)) (0::nat) = (0, Inl (AppError ''Unauthenticated'' 401))"
  using verifyToken_never_throws [of example_libs "example_config ''production''" "''expired-or-garbage''"
      "\<lambda>p st. (Suc st, Inr new_response)" "0::nat"]
    verifyToken_never_throws [of example_libs "example_config ''production''" "''good''"
      "\<lambda>p st. (Suc st, Inr new_response)" "0::nat"]
  by (simp add: verifyToken_cases auth_def example_libs_def example_config_def)

section \<open>Properties of the password login\<close>

lemma set_email_example: "set_email '' ANA@Uni.GE  '' = ''ana@uni.ge''"
  by code_simp

lemma set_email_plain: "set_email ''ana@uni.ge'' = ''ana@uni.ge''"
  by code_simp

lemma login_missing_field:
  "falsy (body ''email'') \<or> falsy (body ''password'') \<Longrightarrow>
     login L cfg users body = Inl (AppError ''Please provide email and password'' 400)"
  by (simp add: login_def)

lemma login_cases:
  assumes "body ''email'' = Some e" "body ''password'' = Some p" "e \<noteq> []" "p \<noteq> []"
  shows "login L cfg users body =
     (case findOne_email users e of
        None \<Rightarrow> Inl (AppError ''Invalid credentials'' 401)
      | Some u \<Rightarrow>
          if falsy (passwordHash u) then Inl (AppError ''Invalid credentials'' 401)
          else if isActive u = False then Inl (AppError ''Account is deactivated'' 401)
          else if bcrypt_compare L p (field_value (passwordHash u)) = False
          then Inl (AppError ''Invalid credentials'' 401)
          else Inr (sendUserResponse L cfg new_response u 200))"
  using assms
  by (auto simp: login_def falsy_def field_value_def verifyPassword_def Let_def
      split: option.splits)

lemma login_refused_iff:
  assumes "body ''email'' = Some e" "body ''password'' = Some p" "e \<noteq> []" "p \<noteq> []"
  shows "(\<exists>msg. login L cfg users body = Inl (AppError msg 401)) = credentials_refused L users e p"
  unfolding login_cases [OF assms]
  by (auto simp: credentials_refused_def falsy_def field_value_def split: option.splits)

lemma sendUserResponse_status_body:
  "res_status (sendUserResponse L cfg res u code) = code
   \<and> res_body (sendUserResponse L cfg res u code) =
       Some (JObject [(''success'', JBool True), (''user'', JObject (toJSON u))])"
  by (simp add: sendUserResponse_def Let_def)

text \<open>
  C5, as the code has it. A request whose email or password is missing or empty fails
  with status 400 before any account is looked up. For a request that carries a
  non-empty email and a non-empty password, the account is looked up by the email in
  lower case and trimmed, and the login fails with status 401 exactly when that
  account is absent, is inactive, or the password does not match its stored hash. The
  message is \<open>Invalid credentials\<close> when the account is absent or has no stored hash,
  \<open>Account is deactivated\<close> when it has a hash and is inactive, and
  \<open>Invalid credentials\<close> when it is active and the password does not match;
  otherwise the login succeeds with status 200 and the body carries that account.
\<close>

theorem login_outcomes:
  "(falsy (body ''email'') \<or> falsy (body ''password'') \<longrightarrow>
      login L cfg users body = Inl (AppError ''Please provide email and password'' 400))
   \<and> (\<forall>e p. body ''email'' = Some e \<and> body ''password'' = Some p \<and> e \<noteq> [] \<and> p \<noteq> [] \<longrightarrow>
        ((\<exists>msg. login L cfg users body = Inl (AppError msg 401)) = credentials_refused L users e p)
        \<and> (case findOne_email users e of
              None \<Rightarrow> login L cfg users body = Inl (AppError ''Invalid credentials'' 401)
            | Some u \<Rightarrow>
                if falsy (passwordHash u)
                then login L cfg users body = Inl (AppError ''Invalid credentials'' 401)
                else if isActive u = False
                then login L cfg users body = Inl (AppError ''Account is deactivated'' 401)
                else if bcrypt_compare L p (field_value (passwordHash u)) = False
                then login L cfg users body = Inl (AppError ''Invalid credentials'' 401)
                else login L cfg users body = Inr (sendUserResponse L cfg new_response u 200)
                   \<and> res_status (sendUserResponse L cfg new_response u 200) = 200
                   \<and> res_body (sendUserResponse L cfg new_response u 200) =
                       Some (JObject [(''success'', JBool True), (''user'', JObject (toJSON u))])))"
proof (intro conjI allI impI)
  assume "falsy (body ''email'') \<or> falsy (body ''password'')"
  then show "login L cfg users body = Inl (AppError ''Please provide email and password'' 400)"
    by (rule login_missing_field)
next
  fix e p
  assume a: "body ''email'' = Some e \<and> body ''password'' = Some p \<and> e \<noteq> [] \<and> p \<noteq> []"
  then show "(\<exists>msg. login L cfg users body = Inl (AppError msg 401)) = credentials_refused L users e p"
    by (intro login_refused_iff) simp_all
next
  fix e p
  assume a: "body ''email'' = Some e \<and> body ''password'' = Some p \<and> e \<noteq> [] \<and> p \<noteq> []"
  then have c: "login L cfg users body =
     (case findOne_email users e of
        None \<Rightarrow> Inl (AppError ''Invalid credentials'' 401)
      | Some u \<Rightarrow>
          if falsy (passwordHash u) then Inl (AppError ''Invalid credentials'' 401)
          else if isActive u = False then Inl (AppError ''Account is deactivated'' 401)
          else if bcrypt_compare L p (field_value (passwordHash u)) = False
          then Inl (AppError ''Invalid credentials'' 401)
          else Inr (sendUserResponse L cfg new_response u 200))"
    by (intro login_cases) simp_all
  show "case findOne_email users e of
              None \<Rightarrow> login L cfg users body = Inl (AppError ''Invalid credentials'' 401)
            | Some u \<Rightarrow>
                if falsy (passwordHash u)
                then login L cfg users body = Inl (AppError ''Invalid credentials'' 401)
                else if isActive u = False
                then login L cfg users body = Inl (AppError ''Account is deactivated'' 401)
                else if bcrypt_compare L p (field_value (passwordHash u)) = False
                then login L cfg users body = Inl (AppError ''Invalid credentials'' 401)
                else login L cfg users body = Inr (sendUserResponse L cfg new_response u 200)
                   \<and> res_status (sendUserResponse L cfg new_response u 200) = 200
                   \<and> res_body (sendUserResponse L cfg new_response u 200) =
                       Some (JObject [(''success'', JBool True), (''user'', JObject (toJSON u))])"
    unfolding c by (simp add: sendUserResponse_status_body split: option.splits)
qed

lemma example_logins:
  "login example_libs (example_config ''production'') [example_user]
      [''email'' \<mapsto> '' ANA@Uni.GE  '', ''password'' \<mapsto> ''secret1'']
     = Inr (sendUserResponse example_libs (example_config ''production'') new_response example_user 200)
   \<and> login example_libs (example_config ''production'') [example_user]
      [''email'' \<mapsto> ''ana@uni.ge'', ''password'' \<mapsto> ''wrong'']
     = Inl (AppError ''Invalid credentials'' 401)
   \<and> login example_libs (example_config ''production'') [example_user\<lparr>isActive := False\<rparr>]
      [''email'' \<mapsto> ''ana@uni.ge'', ''password'' \<mapsto> ''secret1'']
     = Inl (AppError ''Account is deactivated'' 401)
   \<and> login example_libs (example_config ''production'') [example_user] [''email'' \<mapsto> ''ana@uni.ge'']
     = Inl (AppError ''Please provide email and password'' 400)"
  by (simp add: login_def falsy_def field_value_def findOne_email_def verifyPassword_def
      set_email_example set_email_plain example_user_def example_libs_def)

theorem login_outcomes_witness:
  "login example_libs (example_config ''production'') [example_user]
      [''email'' \<mapsto> '' ANA@Uni.GE  '', ''password'' \<mapsto> ''secret1'']
     = Inr (sendUserResponse example_libs (example_config ''production'') new_response example_user 200)
   \<and> login example_libs (example_config ''production'') [example_user]
      [''email'' \<mapsto> ''ana@uni.ge'', ''password'' \<mapsto> ''wrong'']
     = Inl (AppError ''Invalid credentials'' 401)
   \<and> login example_libs (example_config ''production'') [example_user\<lparr>isActive := False\<rparr>]
      [''email'' \<mapsto> ''ana@uni.ge'', ''password'' \<mapsto> ''secret1'']
     = Inl (AppError ''Account is deactivated'' 401)
   \<and> login example_libs (example_config ''production'') [example_user] [''email'' \<mapsto> ''ana@uni.ge'']
     = Inl (AppError ''Please provide email and password'' 400)"
  using login_outcomes [of "[''email'' \<mapsto> ''ana@uni.ge'', ''password'' \<mapsto> ''wrong'']"
      example_libs "example_config ''production''" "[example_user]"]
    example_logins
  by simp

text \<open>
  C5 as stated fails: the account exists, is active and has a stored hash, and the
  supplied password, the empty string, does not match that hash; the login fails, but
  with status 400 and the message of a missing field, not as invalid credentials.
\<close>

theorem login_empty_password_counterexample:
  "findOne_email [example_user] ''ana@uni.ge'' = Some example_user
   \<and> isActive example_user
   \<and> passwordHash example_user = Some ''#secret1''
   \<and> bcrypt_compare example_libs [] ''#secret1'' = False
   \<and> login example_libs (example_config ''production'') [example_user]
        [''email'' \<mapsto> ''ana@uni.ge'', ''password'' \<mapsto> []]
       = Inl (AppError ''Please provide email and password'' 400)"
  by (simp add: login_def falsy_def findOne_email_def set_email_plain example_user_def example_libs_def)

section \<open>Properties of the profile update\<close>

lemma length_replace_user: "length (replace_user u vs) = length vs"
  by (induction vs) auto

lemma replace_user_first:
  "find (\<lambda>v. u_id v = u_id u') vs = Some u \<Longrightarrow> i < length vs \<Longrightarrow>
     replace_user u' vs ! i = vs ! i \<or> (replace_user u' vs ! i = u' \<and> vs ! i = u)"
proof (induction vs arbitrary: i)
  case Nil
  then show ?case by simp
next
  case (Cons v vs)
  then show ?case by (cases i) (auto split: if_splits)
qed

lemma find_user_Some: "findById_user users uid = Some u \<Longrightarrow> u \<in> set users \<and> u_id u = uid"
  unfolding findById_user_def by (auto simp: find_Some_iff)

lemma pre_save_same_hash: "passwordHash u = passwordHash orig \<Longrightarrow> pre_save L orig u = u"
  by (simp add: pre_save_def)

lemma updateProfile_store:
  "fst (updateProfile L now users uid body) = users \<or>
   (\<exists>u nm b. findById_user users uid = Some u \<and> (nm \<noteq> name u \<or> b \<noteq> bio u) \<and>
       fst (updateProfile L now users uid body) =
         replace_user (u\<lparr>name := nm, bio := b, u_updatedAt := now\<rparr>) users)
   \<or> (\<exists>u. findById_user users uid = Some u \<and>
         fst (updateProfile L now users uid body) = replace_user u users)"
proof (cases "findById_user users uid")
  case None
  then show ?thesis by (simp add: updateProfile_def)
next
  case (Some u)
  define u2 where "u2 =
    (let u1 = (if \<not> falsy (body ''name'') then u\<lparr>name := trim (field_value (body ''name''))\<rparr> else u)
     in (if body ''bio'' \<noteq> None then u1\<lparr>bio := field_value (body ''bio'')\<rparr> else u1))"
  have shape: "u2 = u\<lparr>name := name u2, bio := bio u2\<rparr>"
    by (simp add: u2_def Let_def)
  have hash: "passwordHash u2 = passwordHash u"
    by (simp add: u2_def Let_def)
  have up: "fst (updateProfile L now users uid body) = fst (save L now users u u2)"
    using Some by (simp add: updateProfile_def u2_def Let_def split: prod.splits sum.splits)
  show ?thesis
  proof (cases "validate_user u2 = []")
    case False
    then show ?thesis by (simp add: up save_def)
  next
    case True
    show ?thesis
    proof (cases "u2 = u")
      case True
      with \<open>validate_user u2 = []\<close> have "fst (save L now users u u2) = replace_user u users"
        by (simp add: save_def stamp_updatedAt_def pre_save_same_hash Let_def)
      with Some up show ?thesis by simp
    next
      case False
      with shape have diff: "name u2 \<noteq> name u \<or> bio u2 \<noteq> bio u"
        by (metis user.surjective user.update_convs(5) user.update_convs(6))
      from False \<open>validate_user u2 = []\<close> hash
      have "fst (save L now users u u2) = replace_user (u2\<lparr>u_updatedAt := now\<rparr>) users"
        by (simp add: save_def stamp_updatedAt_def pre_save_same_hash Let_def)
      moreover have "u2\<lparr>u_updatedAt := now\<rparr> = u\<lparr>name := name u2, bio := bio u2, u_updatedAt := now\<rparr>"
        using shape by (metis)
      ultimately show ?thesis using Some up diff by auto
    qed
  qed
qed


lemma replace_user_same:
  "find (\<lambda>v. u_id v = u_id u) vs = Some u \<Longrightarrow> replace_user u vs = vs"
  by (induction vs) (auto split: if_splits)

text \<open>
  C8, as the code has it. For every collection, caller, time and request body, whatever
  fields the body has, the collection after \<open>updateProfile\<close> has the same documents
  in the same places; each differs from the one before at most in \<open>name\<close>, \<open>bio\<close>
  and the stamp \<open>updatedAt\<close>, so that \<open>_id\<close>, \<open>email\<close>, \<open>passwordHash\<close>,
  \<open>googleId\<close>, \<open>role\<close> and \<open>isActive\<close> are those of before; a document whose
  \<open>name\<close> and \<open>bio\<close> are those of before is unchanged altogether, a document
  that has changed has \<open>updatedAt\<close> at the time of the call, and a document of
  another account than the caller's is unchanged.
\<close>

theorem updateProfile_frame:
  "length (fst (updateProfile L now users uid body)) = length users
   \<and> (\<forall>i < length users.
        fst (updateProfile L now users uid body) ! i =
          (users ! i)\<lparr>name := name (fst (updateProfile L now users uid body) ! i),
                      bio := bio (fst (updateProfile L now users uid body) ! i),
                      u_updatedAt := u_updatedAt (fst (updateProfile L now users uid body) ! i)\<rparr>
        \<and> u_id (fst (updateProfile L now users uid body) ! i) = u_id (users ! i)
        \<and> email (fst (updateProfile L now users uid body) ! i) = email (users ! i)
        \<and> passwordHash (fst (updateProfile L now users uid body) ! i) = passwordHash (users ! i)
        \<and> googleId (fst (updateProfile L now users uid body) ! i) = googleId (users ! i)
        \<and> role (fst (updateProfile L now users uid body) ! i) = role (users ! i)
        \<and> isActive (fst (updateProfile L now users uid body) ! i) = isActive (users ! i)
        \<and> (name (fst (updateProfile L now users uid body) ! i) = name (users ! i)
             \<and> bio (fst (updateProfile L now users uid body) ! i) = bio (users ! i)
            \<longrightarrow> fst (updateProfile L now users uid body) ! i = users ! i)
        \<and> (fst (updateProfile L now users uid body) ! i \<noteq> users ! i
            \<longrightarrow> u_updatedAt (fst (updateProfile L now users uid body) ! i) = now)
        \<and> (u_id (users ! i) \<noteq> uid \<longrightarrow> fst (updateProfile L now users uid body) ! i = users ! i))"
proof -
  let ?after = "fst (updateProfile L now users uid body)"
  from updateProfile_store [of L now users uid body]
  consider "?after = users"
    | u nm b where "findById_user users uid = Some u" "nm \<noteq> name u \<or> b \<noteq> bio u"
        "?after = replace_user (u\<lparr>name := nm, bio := b, u_updatedAt := now\<rparr>) users"
    | u where "findById_user users uid = Some u" "?after = replace_user u users"
    by blast
  then show ?thesis
  proof cases
    case 1
    then show ?thesis by simp
  next
    case 3
    from 3(1) have "find (\<lambda>v. u_id v = u_id u) users = Some u"
      using find_user_Some [OF 3(1)] by (simp add: findById_user_def)
    then have "?after = users" using 3(2) by (simp add: replace_user_same)
    then show ?thesis by simp
  next
    case 2
    let ?u' = "u\<lparr>name := nm, bio := b, u_updatedAt := now\<rparr>"
    from find_user_Some [OF 2(1)] have uid: "u_id u = uid" by simp
    from 2(1) have fnd: "find (\<lambda>v. u_id v = u_id ?u') users = Some u"
      by (simp add: findById_user_def uid)
    have len: "length ?after = length users"
      by (simp add: 2(3) length_replace_user)
    have "?after ! i = (users ! i)\<lparr>name := name (?after ! i), bio := bio (?after ! i),
                                   u_updatedAt := u_updatedAt (?after ! i)\<rparr>
        \<and> u_id (?after ! i) = u_id (users ! i)
        \<and> email (?after ! i) = email (users ! i)
        \<and> passwordHash (?after ! i) = passwordHash (users ! i)
        \<and> googleId (?after ! i) = googleId (users ! i)
        \<and> role (?after ! i) = role (users ! i)
        \<and> isActive (?after ! i) = isActive (users ! i)
        \<and> (name (?after ! i) = name (users ! i) \<and> bio (?after ! i) = bio (users ! i)
            \<longrightarrow> ?after ! i = users ! i)
        \<and> (?after ! i \<noteq> users ! i \<longrightarrow> u_updatedAt (?after ! i) = now)
        \<and> (u_id (users ! i) \<noteq> uid \<longrightarrow> ?after ! i = users ! i)"
      if "i < length users" for i
      using replace_user_first [OF fnd that] uid 2(2)
      by (auto simp: 2(3))
    with len show ?thesis by blast
  qed
qed

lemma example_updateProfile:
  "fst (updateProfile example_libs 9 [example_admin, example_user] 1
      [''name'' \<mapsto> ''  Ana Maria '', ''bio'' \<mapsto> ''Student'', ''role'' \<mapsto> ''admin'',
       ''email'' \<mapsto> ''eve@x.ge'', ''passwordHash'' \<mapsto> ''#owned'', ''isActive'' \<mapsto> ''false''])
   = [example_admin, example_user\<lparr>name := ''Ana Maria'', bio := ''Student'', u_updatedAt := 9\<rparr>]"
  by code_simp

lemma example_updateProfile_bio:
  "fst (updateProfile example_libs 9 [example_admin, example_user] 1 [''bio'' \<mapsto> ''Student''])
   = [example_admin, example_user\<lparr>bio := ''Student'', u_updatedAt := 9\<rparr>]"
  by code_simp

theorem updateProfile_frame_witness:
  "fst (updateProfile example_libs 9 [example_admin, example_user] 1
      [''name'' \<mapsto> ''  Ana Maria '', ''bio'' \<mapsto> ''Student'', ''role'' \<mapsto> ''admin'',
       ''email'' \<mapsto> ''eve@x.ge'', ''passwordHash'' \<mapsto> ''#owned'', ''isActive'' \<mapsto> ''false''])
   = [example_admin, example_user\<lparr>name := ''Ana Maria'', bio := ''Student'', u_updatedAt := 9\<rparr>]
   \<and> (1::nat) < length [example_admin, example_user]
   \<and> email (example_user\<lparr>name := ''Ana Maria'', bio := ''Student'', u_updatedAt := 9\<rparr>) = ''ana@uni.ge''
   \<and> role (example_user\<lparr>name := ''Ana Maria'', bio := ''Student'', u_updatedAt := 9\<rparr>) = RoleUser
   \<and> passwordHash (example_user\<lparr>name := ''Ana Maria'', bio := ''Student'', u_updatedAt := 9\<rparr>)
       = Some ''#secret1''
   \<and> isActive (example_user\<lparr>name := ''Ana Maria'', bio := ''Student'', u_updatedAt := 9\<rparr>)"
  using updateProfile_frame [of example_libs 9 "[example_admin, example_user]" 1
      "[''name'' \<mapsto> ''  Ana Maria '', ''bio'' \<mapsto> ''Student'', ''role'' \<mapsto> ''admin'',
        ''email'' \<mapsto> ''eve@x.ge'', ''passwordHash'' \<mapsto> ''#owned'', ''isActive'' \<mapsto> ''false'']"]
    example_updateProfile
  by (simp add: example_user_def)

text \<open>
  C8 as stated fails: a request that sets \<open>bio\<close> at time 9 also changes the field
  \<open>updatedAt\<close> of the caller's document, from 3 to 9.
\<close>

theorem updateProfile_stamps_updatedAt_counterexample:
  "u_updatedAt example_user = 3
   \<and> fst (updateProfile example_libs 9 [example_admin, example_user] 1 [''bio'' \<mapsto> ''Student''])
       = [example_admin, example_user\<lparr>bio := ''Student'', u_updatedAt := 9\<rparr>]
   \<and> u_updatedAt (example_user\<lparr>bio := ''Student'', u_updatedAt := 9\<rparr>) = 9"
  using example_updateProfile_bio by (simp add: example_user_def)

section \<open>Properties of the read state\<close>

lemma unread_copy_set_read: "unread_copy (set_read t n) = unread_copy n"
  by (simp add: unread_copy_def set_read_def)

lemma set_read_same_time: "set_read t (set_read t n) = set_read t n"
  by (simp add: set_read_def)

lemma unstamped_set_read_again: "unstamped (set_read t2 (set_read t1 n)) = unstamped (set_read t1 n)"
  by (simp add: unstamped_def set_read_def)

lemma set_read_fun: "set_read t = (\<lambda>n. n\<lparr>isRead := True, updatedAt := t\<rparr>)"
  by (rule ext) (simp add: set_read_def)

lemma update_first_frame: "map unread_copy (update_first P (set_read t) ns) = map unread_copy ns"
  by (induction ns) (simp_all add: unread_copy_set_read)

lemma updateMany_frame: "map unread_copy (updateMany P (set_read t) ns) = map unread_copy ns"
  by (induction ns) (simp_all add: updateMany_def unread_copy_set_read)

lemma update_first_same_time:
  assumes "\<And>n. P (set_read t n) = P n"
  shows "update_first P (set_read t) (update_first P (set_read t) ns) = update_first P (set_read t) ns"
  by (induction ns) (simp_all add: assms set_read_same_time)

lemma update_first_again:
  assumes "\<And>n. P (set_read t1 n) = P n"
  shows "map unstamped (update_first P (set_read t2) (update_first P (set_read t1) ns))
       = map unstamped (update_first P (set_read t1) ns)"
  by (induction ns) (simp_all add: assms unstamped_set_read_again)

lemma find_update_first_same:
  assumes "\<And>m. P (f m) = P m"
  shows "find P (update_first P f ns) = map_option f (find P ns)"
  by (induction ns) (simp_all add: assms)

lemma updateMany_unread_idem:
  "updateMany (\<lambda>n. recipientId n = r \<and> \<not> isRead n) (set_read t2)
     (updateMany (\<lambda>n. recipientId n = r \<and> \<not> isRead n) (set_read t1) ns)
   = updateMany (\<lambda>n. recipientId n = r \<and> \<not> isRead n) (set_read t1) ns"
  by (induction ns) (simp_all add: updateMany_def set_read_def)

text \<open>
  C3, as the code has it. For every state, recipient, notification id and times, each
  of the four mark-read operations (the two routes and the two socket events) leaves
  the other collections alone and leaves the notifications the same records in the same
  order up to read flags and \<open>updatedAt\<close> stamps: none is created, none is deleted,
  no other field changes. Mark-all-read is idempotent: applied again, at any time, it
  changes nothing. Mark-one-read applied again changes at most \<open>updatedAt\<close> stamps,
  and nothing at all when the time is the same; after each application the
  notification that its filter finds is read and has \<open>updatedAt\<close> at the time of
  the call.
\<close>

theorem mark_read_frame_and_repetition:
  "untouched_but_read d (fst (route_mark_read t1 d uid nid))
   \<and> untouched_but_read d (route_mark_all_read t1 d uid)
   \<and> untouched_but_read d (on_notification_read t1 d sock nid)
   \<and> untouched_but_read d (on_notifications_readAll t1 d sock)
   \<and> route_mark_all_read t2 (route_mark_all_read t1 d uid) uid = route_mark_all_read t1 d uid
   \<and> on_notifications_readAll t2 (on_notifications_readAll t1 d sock) sock = on_notifications_readAll t1 d sock
   \<and> untouched_but_stamps (fst (route_mark_read t1 d uid nid))
        (fst (route_mark_read t2 (fst (route_mark_read t1 d uid nid)) uid nid))
   \<and> untouched_but_stamps (on_notification_read t1 d sock nid)
        (on_notification_read t2 (on_notification_read t1 d sock nid) sock nid)
   \<and> fst (route_mark_read t1 (fst (route_mark_read t1 d uid nid)) uid nid) = fst (route_mark_read t1 d uid nid)
   \<and> on_notification_read t1 (on_notification_read t1 d sock nid) sock nid = on_notification_read t1 d sock nid
   \<and> find (\<lambda>m. n_id m = nid \<and> recipientId m = uid) (notifications (fst (route_mark_read t1 d uid nid)))
       = map_option (\<lambda>n. n\<lparr>isRead := True, updatedAt := t1\<rparr>)
           (find (\<lambda>m. n_id m = nid \<and> recipientId m = uid) (notifications d))
   \<and> find (\<lambda>m. n_id m = nid) (notifications (on_notification_read t1 d sock nid))
       = map_option (\<lambda>n. n\<lparr>isRead := True, updatedAt := t1\<rparr>)
           (find (\<lambda>m. n_id m = nid) (notifications d))"
proof -
  have f1: "untouched_but_read d (fst (route_mark_read t1 d uid nid))"
    by (simp add: untouched_but_read_def route_mark_read_def Let_def update_first_frame)
  have f2: "untouched_but_read d (route_mark_all_read t1 d uid)"
    by (simp add: untouched_but_read_def route_mark_all_read_def updateMany_frame)
  have f3: "untouched_but_read d (on_notification_read t1 d sock nid)"
    by (simp add: untouched_but_read_def on_notification_read_def update_first_frame)
  have f4: "untouched_but_read d (on_notifications_readAll t1 d sock)"
    by (simp add: untouched_but_read_def on_notifications_readAll_def updateMany_frame)
  have a1: "route_mark_all_read t2 (route_mark_all_read t1 d uid) uid = route_mark_all_read t1 d uid"
    by (simp add: route_mark_all_read_def updateMany_unread_idem)
  have a2: "on_notifications_readAll t2 (on_notifications_readAll t1 d sock) sock = on_notifications_readAll t1 d sock"
    by (simp add: on_notifications_readAll_def updateMany_unread_idem)
  have s1: "untouched_but_stamps (fst (route_mark_read t1 d uid nid))
        (fst (route_mark_read t2 (fst (route_mark_read t1 d uid nid)) uid nid))"
    by (simp add: untouched_but_stamps_def route_mark_read_def Let_def update_first_again set_read_def)
  have s2: "untouched_but_stamps (on_notification_read t1 d sock nid)
        (on_notification_read t2 (on_notification_read t1 d sock nid) sock nid)"
    by (simp add: untouched_but_stamps_def on_notification_read_def update_first_again set_read_def)
  have i1: "fst (route_mark_read t1 (fst (route_mark_read t1 d uid nid)) uid nid) = fst (route_mark_read t1 d uid nid)"
    by (simp add: route_mark_read_def Let_def update_first_same_time set_read_def)
  have i3: "on_notification_read t1 (on_notification_read t1 d sock nid) sock nid = on_notification_read t1 d sock nid"
    by (simp add: on_notification_read_def update_first_same_time set_read_def)
  have w1: "find (\<lambda>m. n_id m = nid \<and> recipientId m = uid) (notifications (fst (route_mark_read t1 d uid nid)))
       = map_option (\<lambda>n. n\<lparr>isRead := True, updatedAt := t1\<rparr>)
           (find (\<lambda>m. n_id m = nid \<and> recipientId m = uid) (notifications d))"
    by (simp add: route_mark_read_def Let_def find_update_first_same set_read_fun)
  have w2: "find (\<lambda>m. n_id m = nid) (notifications (on_notification_read t1 d sock nid))
       = map_option (\<lambda>n. n\<lparr>isRead := True, updatedAt := t1\<rparr>)
           (find (\<lambda>m. n_id m = nid) (notifications d))"
    by (simp add: on_notification_read_def find_update_first_same set_read_fun)
  from f1 f2 f3 f4 a1 a2 s1 s2 i1 i3 w1 w2 show ?thesis by blast
qed

lemma example_mark_read:
  "notifications (fst (route_mark_read 8 example_inbox 1 2))
     = [example_note 1 2 False 1, example_note 2 1 True 8, example_note 3 1 True 5, example_note 4 1 False 4]
   \<and> notifications (fst (route_mark_read 9 (fst (route_mark_read 8 example_inbox 1 2)) 1 2))
     = [example_note 1 2 False 1, example_note 2 1 True 9, example_note 3 1 True 5, example_note 4 1 False 4]"
  by (simp add: route_mark_read_def example_inbox_def example_note_def set_read_def Let_def)

text \<open>
  C3 as stated fails: marking notification 2 as read at time 8 changes its
  \<open>updatedAt\<close> from 2 to 8 along with the read flag, and marking it again at time 9
  leaves a store that is not the one after the first application.
\<close>

theorem mark_read_restamps_counterexample:
  "notifications example_inbox
     = [example_note 1 2 False 1, example_note 2 1 False 2, example_note 3 1 True 5, example_note 4 1 False 4]
   \<and> notifications (fst (route_mark_read 8 example_inbox 1 2))
     = [example_note 1 2 False 1, example_note 2 1 True 8, example_note 3 1 True 5, example_note 4 1 False 4]
   \<and> notifications (fst (route_mark_read 9 (fst (route_mark_read 8 example_inbox 1 2)) 1 2))
     = [example_note 1 2 False 1, example_note 2 1 True 9, example_note 3 1 True 5, example_note 4 1 False 4]
   \<and> updatedAt (example_note 2 1 False 2) = 2
   \<and> updatedAt (example_note 2 1 True 8) = 8
   \<and> example_note 2 1 True 9 \<noteq> example_note 2 1 True 8
   \<and> fst (route_mark_read 9 (fst (route_mark_read 8 example_inbox 1 2)) 1 2)
       \<noteq> fst (route_mark_read 8 example_inbox 1 2)"
proof -
  have ne: "example_note 2 1 True 9 \<noteq> example_note 2 1 True 8"
    by (simp add: example_note_def)
  from example_mark_read ne
  have "notifications (fst (route_mark_read 9 (fst (route_mark_read 8 example_inbox 1 2)) 1 2))
       \<noteq> notifications (fst (route_mark_read 8 example_inbox 1 2))"
    by simp
  then have "fst (route_mark_read 9 (fst (route_mark_read 8 example_inbox 1 2)) 1 2)
       \<noteq> fst (route_mark_read 8 example_inbox 1 2)"
    by metis
  with example_mark_read ne show ?thesis
    by (simp add: example_inbox_def example_note_def)
qed

text \<open>
  C4. For every state, recipient and options: whenever the listing returns, and it
  does for every page and limit whose \<open>skip\<close> is not negative, its \<open>unreadCount\<close> is
  the number of stored notifications of that recipient whose read flag is unset, which
  is also what the unread-count route answers.
\<close>

theorem getUserNotifications_unreadCount:
  "(0 \<le> (page options - 1) * limit options \<longrightarrow> (\<exists>r. getUserNotifications d uid options = Inr r))
   \<and> (\<forall>r. getUserNotifications d uid options = Inr r \<longrightarrow>
         unreadCount r = length (filter (\<lambda>n. recipientId n = uid \<and> \<not> isRead n) (notifications d))
         \<and> unreadCount r = route_unread_count d uid)"
  by (auto simp: getUserNotifications_def Let_def countDocuments_def route_unread_count_def
      skip_limit_def split: sum.splits if_splits)

theorem getUserNotifications_unreadCount_witness:
  "(\<exists>r. getUserNotifications example_inbox 1 \<lparr>page = 2, limit = 1, unreadOnly = True\<rparr> = Inr r
        \<and> unreadCount r = 2)
   \<and> (\<exists>r. getUserNotifications example_inbox 1 default_options = Inr r \<and> unreadCount r = 2)
   \<and> length (filter (\<lambda>n. recipientId n = 1 \<and> \<not> isRead n) (notifications example_inbox)) = 2"
proof -
  have n: "length (filter (\<lambda>n. recipientId n = 1 \<and> \<not> isRead n) (notifications example_inbox)) = 2"
    by (simp add: example_inbox_def example_note_def)
  from getUserNotifications_unreadCount [of "\<lparr>page = 2, limit = 1, unreadOnly = True\<rparr>" example_inbox 1] n
  have a: "\<exists>r. getUserNotifications example_inbox 1 \<lparr>page = 2, limit = 1, unreadOnly = True\<rparr> = Inr r
        \<and> unreadCount r = 2"
    by auto
  from getUserNotifications_unreadCount [of default_options example_inbox 1] n
  have b: "\<exists>r. getUserNotifications example_inbox 1 default_options = Inr r \<and> unreadCount r = 2"
    by (auto simp: default_options_def)
  from a b n show ?thesis by blast
qed

lemma update_first_no_match: "\<forall>m \<in> set ns. \<not> P m \<Longrightarrow> update_first P f ns = ns"
  by (induction ns) simp_all

lemma find_None_no_match: "\<forall>m \<in> set ns. \<not> P m \<Longrightarrow> find P ns = None"
  by (induction ns) simp_all

lemma find_id_unique:
  "distinct (map n_id ns) \<Longrightarrow> find (\<lambda>m. n_id m = i) ns = Some n \<Longrightarrow> m \<in> set ns \<Longrightarrow> n_id m = i \<Longrightarrow> m = n"
proof (induction ns)
  case Nil
  then show ?case by simp
next
  case (Cons a ns)
  then show ?case by (auto split: if_splits dest: find_Some_iff[THEN iffD1] simp: image_iff)
qed

lemma find_update_first_weaker:
  "find Q ns = Some n \<Longrightarrow> (\<And>m. Q (f m) = Q m) \<Longrightarrow> (\<And>m. P m \<Longrightarrow> Q m) \<Longrightarrow> P n \<Longrightarrow>
     find Q (update_first P f ns) = Some (f n)"
proof (induction ns)
  case Nil
  then show ?case by simp
next
  case (Cons a ns)
  then show ?case by (auto split: if_splits)
qed

text \<open>
  C9. In a store whose notifications have distinct ids, let \<open>n\<close> be the notification
  with id \<open>nid\<close>. The socket event \<open>notification:read\<close> sets its read flag (and
  stamps \<open>updatedAt\<close>) whoever the connected identity is: the result does not depend
  on the socket at all. The route \<open>PATCH /:id/read\<close> does the same when \<open>n\<close>
  belongs to the caller, and otherwise changes nothing and answers \<open>null\<close>.
\<close>

theorem socket_read_has_no_recipient_check:
  assumes "distinct (map n_id (notifications d))"
    and "find (\<lambda>m. n_id m = nid) (notifications d) = Some n"
  shows "find (\<lambda>m. n_id m = nid) (notifications (on_notification_read now d sock nid))
           = Some (n\<lparr>isRead := True, updatedAt := now\<rparr>)
    \<and> on_notification_read now d sock nid = on_notification_read now d sock' nid
    \<and> (if recipientId n = uid
        then find (\<lambda>m. n_id m = nid) (notifications (fst (route_mark_read now d uid nid)))
               = Some (n\<lparr>isRead := True, updatedAt := now\<rparr>)
        else route_mark_read now d uid nid = (d, None))"
proof -
  have sock: "find (\<lambda>m. n_id m = nid) (notifications (on_notification_read now d sock nid))
      = Some (n\<lparr>isRead := True, updatedAt := now\<rparr>)"
    using assms(2) by (simp add: on_notification_read_def find_update_first_same set_read_def)
  have indep: "on_notification_read now d sock nid = on_notification_read now d sock' nid"
    by (simp add: on_notification_read_def)
  have http: "if recipientId n = uid
        then find (\<lambda>m. n_id m = nid) (notifications (fst (route_mark_read now d uid nid)))
               = Some (n\<lparr>isRead := True, updatedAt := now\<rparr>)
        else route_mark_read now d uid nid = (d, None)"
  proof (cases "recipientId n = uid")
    case True
    have "find (\<lambda>m. n_id m = nid)
            (update_first (\<lambda>m. n_id m = nid \<and> recipientId m = uid) (set_read now) (notifications d))
          = Some (set_read now n)"
      using assms(2) True
      by (intro find_update_first_weaker) (auto simp: set_read_def find_Some_iff)
    with True show ?thesis by (simp add: route_mark_read_def Let_def set_read_def)
  next
    case False
    have none: "\<forall>m \<in> set (notifications d). \<not> (n_id m = nid \<and> recipientId m = uid)"
      using find_id_unique [OF assms] False by blast
    from False show ?thesis
      by (simp add: route_mark_read_def Let_def update_first_no_match [OF none] find_None_no_match [OF none])
  qed
  from sock indep http show ?thesis by blast
qed

theorem socket_read_has_no_recipient_check_witness:
  "distinct (map n_id (notifications example_inbox))
   \<and> find (\<lambda>m. n_id m = 1) (notifications example_inbox) = Some (example_note 1 2 False 1)
   \<and> recipientId (example_note 1 2 False 1) \<noteq> userId \<lparr>userId = 1, userType = ''student''\<rparr>
   \<and> find (\<lambda>m. n_id m = 1)
        (notifications (on_notification_read 8 example_inbox \<lparr>userId = 1, userType = ''student''\<rparr> 1))
       = Some (example_note 1 2 True 8)
   \<and> route_mark_read 8 example_inbox 1 1 = (example_inbox, None)"
  using socket_read_has_no_recipient_check [of example_inbox 1 "example_note 1 2 False 1" 8
      "\<lparr>userId = 1, userType = ''student''\<rparr>" "\<lparr>userId = 1, userType = ''student''\<rparr>" 1]
  by (simp add: example_inbox_def example_note_def)

section \<open>Properties of the application status update\<close>

lemma find_replace_application:
  "find (\<lambda>a. a_id a = i) apps = Some app \<Longrightarrow> a_id app' = i \<Longrightarrow>
     find (\<lambda>a. a_id a = i) (replace_application app' apps) = Some app'"
  by (induction apps) (auto split: if_splits)

lemma sendToUser_invalid:
  "validate_notification inp \<noteq> [] \<Longrightarrow>
     sendToUser now d rid rtype inp = (d, Inl (ValidationError (validate_notification inp)))"
  by (simp add: sendToUser_def Notification_create_def)

lemma sendToUser_valid:
  "validate_notification inp = [] \<Longrightarrow>
     \<exists>d2 n. sendToUser now d rid rtype inp = (d2, Inr n) \<and> applications d2 = applications d"
  by (simp add: sendToUser_def Notification_create_def Let_def)

lemma parse_status_Some:
  "parse_status s = Some st \<Longrightarrow> s = status_string st"
  by (auto simp: parse_status_def status_string_def split: if_splits)

lemma status_string_notify:
  "(status_string st = ''accepted'' \<or> status_string st = ''rejected'') = (st \<noteq> pending)"
  by (cases st) (simp_all add: status_string_def)

text \<open>
  C1, as the code has it. \<open>updateApplicationStatus\<close> does not look at the current
  status. A request for an id that no application has fails with status 404, and a
  request whose status is not one of pending, accepted, rejected fails validation; both
  leave the state as it was. For an application that exists and a status of the
  \<open>enum\<close>, whatever the current status, the stored application afterwards has the
  requested status (and \<open>updatedAt\<close> stamped when the status has changed). The
  answer is then the application, except that for accepted and rejected it is an error,
  with the status already stored, when the application's event does not exist or the
  notification fails its validators.
\<close>

theorem updateApplicationStatus_outcomes:
  "(find (\<lambda>a. a_id a = i) (applications d) = None \<longrightarrow>
      updateApplicationStatus now d i s = (d, Inl (AppError ''Application not found'' 404)))
   \<and> (\<forall>app. find (\<lambda>a. a_id a = i) (applications d) = Some app \<longrightarrow>
        (case parse_status s of
           None \<Rightarrow>
             updateApplicationStatus now d i s
               = (d, Inl (ValidationError [''status is not a valid enum value'']))
         | Some st \<Rightarrow>
             (let app' = (if st = status app then app else app\<lparr>status := st, a_updatedAt := now\<rparr>)
              in find (\<lambda>a. a_id a = i) (applications (fst (updateApplicationStatus now d i s))) = Some app'
                 \<and> status app' = st
                 \<and> snd (updateApplicationStatus now d i s) =
                     (if st = pending then Inr app'
                      else case find (\<lambda>e. e_id e = a_eventId app) (events d) of
                             None \<Rightarrow> Inl (TypeError ''Cannot read properties of null'')
                           | Some e \<Rightarrow>
                               if validate_notification (application_status_input app' e s) = []
                               then Inr app'
                               else Inl (ValidationError
                                      (validate_notification (application_status_input app' e s)))))))"
proof (intro conjI allI impI)
  assume "find (\<lambda>a. a_id a = i) (applications d) = None"
  then show "updateApplicationStatus now d i s = (d, Inl (AppError ''Application not found'' 404))"
    by (simp add: updateApplicationStatus_def)
next
  fix app
  assume f: "find (\<lambda>a. a_id a = i) (applications d) = Some app"
  then have aid: "a_id app = i" by (auto simp: find_Some_iff)
  show "case parse_status s of
           None \<Rightarrow>
             updateApplicationStatus now d i s
               = (d, Inl (ValidationError [''status is not a valid enum value'']))
         | Some st \<Rightarrow>
             (let app' = (if st = status app then app else app\<lparr>status := st, a_updatedAt := now\<rparr>)
              in find (\<lambda>a. a_id a = i) (applications (fst (updateApplicationStatus now d i s))) = Some app'
                 \<and> status app' = st
                 \<and> snd (updateApplicationStatus now d i s) =
                     (if st = pending then Inr app'
                      else case find (\<lambda>e. e_id e = a_eventId app) (events d) of
                             None \<Rightarrow> Inl (TypeError ''Cannot read properties of null'')
                           | Some e \<Rightarrow>
                               if validate_notification (application_status_input app' e s) = []
                               then Inr app'
                               else Inl (ValidationError
                                      (validate_notification (application_status_input app' e s)))))"
  proof (cases "parse_status s")
    case None
    with f show ?thesis by (simp add: updateApplicationStatus_def Let_def)
  next
    case (Some st)
    define app' where "app' = (if st = status app then app else app\<lparr>status := st, a_updatedAt := now\<rparr>)"
    define d1 where "d1 = d\<lparr>applications := replace_application app' (applications d)\<rparr>"
    have aid': "a_id app' = i" and st': "status app' = st"
      by (simp_all add: app'_def aid)
    have stored: "find (\<lambda>a. a_id a = i) (applications d1) = Some app'"
      by (simp add: d1_def find_replace_application [OF f aid'])
    from parse_status_Some [OF Some] have s: "s = status_string st" .
    have notify: "(s = ''accepted'' \<or> s = ''rejected'') = (st \<noteq> pending)"
      by (simp add: s status_string_notify)
    have goal: "find (\<lambda>a. a_id a = i) (applications (fst (updateApplicationStatus now d i s))) = Some app'
        \<and> snd (updateApplicationStatus now d i s) =
             (if st = pending then Inr app'
              else case find (\<lambda>e. e_id e = a_eventId app) (events d) of
                     None \<Rightarrow> Inl (TypeError ''Cannot read properties of null'')
                   | Some e \<Rightarrow>
                       if validate_notification (application_status_input app' e s) = []
                       then Inr app'
                       else Inl (ValidationError
                              (validate_notification (application_status_input app' e s))))"
    proof (cases "st = pending")
      case True
      with notify have "updateApplicationStatus now d i s = (d1, Inr app')"
        using f Some by (simp add: updateApplicationStatus_def Let_def app'_def d1_def)
      with stored True show ?thesis by simp
    next
      case False
      show ?thesis
      proof (cases "find (\<lambda>e. e_id e = a_eventId app) (events d)")
        case None
        with notify False have "updateApplicationStatus now d i s
            = (d1, Inl (TypeError ''Cannot read properties of null''))"
          using f Some by (simp add: updateApplicationStatus_def Let_def app'_def d1_def)
        with stored False None show ?thesis by simp
      next
        case (Some e)
        have unfold: "updateApplicationStatus now d i s =
            (case notifyApplicationStatus now d1 app' e s of
               (d2, Inl err) \<Rightarrow> (d2, Inl err)
             | (d2, Inr n) \<Rightarrow> (d2, Inr app'))"
          using f \<open>parse_status s = Some st\<close> Some notify False
          unfolding app'_def d1_def
          by (simp add: updateApplicationStatus_def Let_def)
        show ?thesis
        proof (cases "validate_notification (application_status_input app' e s) = []")
          case True
          from sendToUser_valid [OF True, of now d1 "a_studentId app'" Student]
          obtain d2 n where "notifyApplicationStatus now d1 app' e s = (d2, Inr n)"
            "applications d2 = applications d1"
            by (auto simp: notifyApplicationStatus_def)
          with unfold stored True False Some show ?thesis by simp
        next
          case bad: False
          from sendToUser_invalid [OF bad, of now d1 "a_studentId app'" Student]
          have "notifyApplicationStatus now d1 app' e s
              = (d1, Inl (ValidationError (validate_notification (application_status_input app' e s))))"
            by (simp add: notifyApplicationStatus_def)
          with unfold stored bad False Some show ?thesis by simp
        qed
      qed
    qed
    from goal st' show ?thesis
      unfolding Some option.case Let_def app'_def by blast
  qed
qed

lemma example_status_update:
  "updateApplicationStatus 7 example_db 50 ''pending''
     = (example_db\<lparr>applications := [example_application\<lparr>status := pending, a_updatedAt := 7\<rparr>]\<rparr>,
        Inr (example_application\<lparr>status := pending, a_updatedAt := 7\<rparr>))
   \<and> updateApplicationStatus 7 example_db 51 ''rejected''
     = (example_db, Inl (AppError ''Application not found'' 404))
   \<and> updateApplicationStatus 7 example_db 50 ''cancelled''
     = (example_db, Inl (ValidationError [''status is not a valid enum value'']))
   \<and> updateApplicationStatus 7 (example_db\<lparr>events := []\<rparr>) 50 ''rejected''
     = (example_db\<lparr>events := [],
                     applications := [example_application\<lparr>status := rejected, a_updatedAt := 7\<rparr>]\<rparr>,
        Inl (TypeError ''Cannot read properties of null''))"
  by (simp add: updateApplicationStatus_def example_db_def example_application_def example_event_def
      parse_status_def Let_def)

lemma example_reject_accepted:
  "applications (fst (updateApplicationStatus 7 example_db 50 ''rejected''))
     = [example_application\<lparr>status := rejected, a_updatedAt := 7\<rparr>]
   \<and> snd (updateApplicationStatus 7 example_db 50 ''rejected'')
     = Inr (example_application\<lparr>status := rejected, a_updatedAt := 7\<rparr>)"
  by (simp add: updateApplicationStatus_def example_db_def example_application_def example_event_def
      parse_status_def notifyApplicationStatus_def application_status_input_def sendToUser_def
      Notification_create_def validate_notification_def notification_types_def statusMessages_def
      quoted_def Let_def)

theorem updateApplicationStatus_outcomes_witness:
  "find (\<lambda>a. a_id a = 50) (applications example_db) = Some example_application
   \<and> parse_status ''pending'' = Some pending
   \<and> updateApplicationStatus 7 example_db 50 ''pending''
     = (example_db\<lparr>applications := [example_application\<lparr>status := pending, a_updatedAt := 7\<rparr>]\<rparr>,
        Inr (example_application\<lparr>status := pending, a_updatedAt := 7\<rparr>))
   \<and> find (\<lambda>a. a_id a = 51) (applications example_db) = None
   \<and> updateApplicationStatus 7 example_db 51 ''rejected''
     = (example_db, Inl (AppError ''Application not found'' 404))
   \<and> updateApplicationStatus 7 example_db 50 ''cancelled''
     = (example_db, Inl (ValidationError [''status is not a valid enum value'']))
   \<and> updateApplicationStatus 7 (example_db\<lparr>events := []\<rparr>) 50 ''rejected''
     = (example_db\<lparr>events := [],
                     applications := [example_application\<lparr>status := rejected, a_updatedAt := 7\<rparr>]\<rparr>,
        Inl (TypeError ''Cannot read properties of null''))"
proof -
  have a: "find (\<lambda>a. a_id a = 50) (applications example_db) = Some example_application"
    "find (\<lambda>a. a_id a = 51) (applications example_db) = None"
    "parse_status ''pending'' = Some pending"
    by (simp_all add: example_db_def example_application_def parse_status_def)
  from updateApplicationStatus_outcomes [of 50 example_db 7 "''pending''"] a example_status_update
  show ?thesis by simp
qed

text \<open>
  C1 as stated fails: the application is already accepted, the request asks for
  rejected, and the handler answers with success and stores the status rejected.
\<close>

theorem accepted_then_rejected_counterexample:
  "applications example_db = [example_application]
   \<and> status example_application = accepted
   \<and> snd (updateApplicationStatus 7 example_db 50 ''rejected'')
       = Inr (example_application\<lparr>status := rejected, a_updatedAt := 7\<rparr>)
   \<and> map status (applications (fst (updateApplicationStatus 7 example_db 50 ''rejected''))) = [rejected]"
  using example_reject_accepted by (simp add: example_db_def example_application_def)

section \<open>Properties of the new-event fan-out\<close>

lemma create_each_valid:
  "validate_notification inp = [] \<Longrightarrow>
     \<exists>created. create_each now rtype inp rids store = (store @ created, Inr created)
       \<and> map recipientId created = rids
       \<and> (\<forall>n \<in> set created. recipientType n = rtype \<and> n_type n = ni_type inp \<and> data n = ni_data inp)"
proof (induction rids arbitrary: store)
  case Nil
  then show ?case by simp
next
  case (Cons rid rids)
  let ?n = "\<lparr>n_id = new_objid store, recipientId = rid, recipientType = rtype,
                    n_type = ni_type inp, title = ni_title inp, message = ni_message inp,
                    data = ni_data inp, isRead = False, createdAt = now, updatedAt = now\<rparr>"
  from Cons.prems have c: "Notification_create now store rid rtype inp = (store @ [?n], Inr ?n)"
    by (simp add: Notification_create_def Let_def)
  from Cons.IH [OF Cons.prems, of "store @ [?n]"]
  obtain created where r: "create_each now rtype inp rids (store @ [?n]) = ((store @ [?n]) @ created, Inr created)"
    "map recipientId created = rids"
    "\<forall>n \<in> set created. recipientType n = rtype \<and> n_type n = ni_type inp \<and> data n = ni_data inp"
    by blast
  have "create_each now rtype inp (rid # rids) store = (store @ (?n # created), Inr (?n # created))"
    using c r(1) by simp
  moreover have "map recipientId (?n # created) = rid # rids" using r(2) by simp
  moreover have "\<forall>n \<in> set (?n # created). recipientType n = rtype \<and> n_type n = ni_type inp \<and> data n = ni_data inp"
    using r(3) by simp
  ultimately show ?case by (intro exI [of _ "?n # created"] conjI)
qed

lemma new_event_input_valid:
  "length (ni_message (new_event_input ev uni)) \<le> 500 \<Longrightarrow> validate_notification (new_event_input ev uni) = []"
  by (simp add: validate_notification_def new_event_input_def notification_types_def quoted_def)

lemma count_selected:
  "distinct (map f xs) \<Longrightarrow> x \<in> set xs \<Longrightarrow>
     length (filter (\<lambda>y. Q y \<and> f y = f x) xs) = (if Q x then 1 else 0)"
proof (induction xs)
  case Nil
  then show ?case by simp
next
  case (Cons a xs)
  show ?case
  proof (cases "x = a")
    case True
    from Cons.prems(1) have "\<forall>y \<in> set xs. f y \<noteq> f a" by (auto simp: image_iff)
    then have "filter (\<lambda>y. Q y \<and> f y = f a) xs = []" by (simp add: filter_empty_conv)
    with True show ?thesis by simp
  next
    case False
    with Cons.prems have x: "x \<in> set xs" and d: "distinct (map f xs)" by simp_all
    from Cons.prems(1) x have "f a \<noteq> f x" by (auto simp: image_iff)
    with Cons.IH [OF d x] show ?thesis by simp
  qed
qed

lemma count_recipients:
  "length (filter (\<lambda>n. recipientId n = r) created) = length (filter (\<lambda>y. y = r) (map recipientId created))"
  by (induction created) simp_all

lemma count_mapped:
  "length (filter (\<lambda>y. y = r) (map f (filter Q xs))) = length (filter (\<lambda>y. Q y \<and> f y = r) xs)"
  by (induction xs) simp_all


lemma new_event_message_too_long:
  "500 < length (ni_message (new_event_input ev uni)) \<Longrightarrow>
     validate_notification (new_event_input ev uni)
       = [''message is longer than the maximum allowed length (500)'']"
  by (auto simp: validate_notification_def new_event_input_def notification_types_def quoted_def)

lemma create_each_invalid:
  "validate_notification inp \<noteq> [] \<Longrightarrow>
     create_each now rtype inp rids store =
       (store, if rids = [] then Inr [] else Inl (ValidationError (validate_notification inp)))"
  by (cases rids) (simp_all add: Notification_create_def)

lemma notifyNewEvent_too_long:
  assumes "500 < length (ni_message (new_event_input ev uni))"
  shows "notifications (fst (notifyNewEvent now d ev uni)) = notifications d
    \<and> (if filter (\<lambda>s. univ_id uni \<in> set (interestedUniversities s)) (students d) = []
        then snd (notifyNewEvent now d ev uni) = Inr []
        else snd (notifyNewEvent now d ev uni)
               = Inl (ValidationError [''message is longer than the maximum allowed length (500)'']))"
proof -
  have bad: "validate_notification (new_event_input ev uni) \<noteq> []"
    using new_event_message_too_long [OF assms] by simp
  show ?thesis
    by (simp add: notifyNewEvent_def sendToMultipleUsers_def Let_def create_each_invalid [OF bad]
        new_event_message_too_long [OF assms])
qed

lemma notifyNewEvent_fits:
  assumes "distinct (map s_id (students d))"
    and "length (ni_message (new_event_input ev uni)) \<le> 500"
  shows "\<exists>created.
      snd (notifyNewEvent now d ev uni) = Inr created
    \<and> notifications (fst (notifyNewEvent now d ev uni)) = notifications d @ created
    \<and> (\<forall>s \<in> set (students d).
         length (filter (\<lambda>n. recipientId n = s_id s \<and> recipientType n = Student
                          \<and> n_type n = ''new_event'' \<and> eventId (data n) = Some (e_id ev)) created)
           = (if univ_id uni \<in> set (interestedUniversities s) then 1 else 0))
    \<and> (\<forall>n \<in> set created. \<exists>s \<in> set (students d).
         recipientId n = s_id s \<and> univ_id uni \<in> set (interestedUniversities s))"
proof -
  let ?Q = "\<lambda>s. univ_id uni \<in> set (interestedUniversities s)"
  let ?ids = "map s_id (filter ?Q (students d))"
  let ?inp = "new_event_input ev uni"
  from create_each_valid [OF new_event_input_valid [OF assms(2)], of now Student ?ids "notifications d"]
  obtain created where c: "create_each now Student ?inp ?ids (notifications d) = (notifications d @ created, Inr created)"
    "map recipientId created = ?ids"
    "\<forall>n \<in> set created. recipientType n = Student \<and> n_type n = ni_type ?inp \<and> data n = ni_data ?inp"
    by blast
  have empty: "created = []" if "filter ?Q (students d) = []"
    using that c(2) by simp
  have res: "snd (notifyNewEvent now d ev uni) = Inr created"
    "notifications (fst (notifyNewEvent now d ev uni)) = notifications d @ created"
    using c(1) empty by (auto simp: notifyNewEvent_def sendToMultipleUsers_def Let_def)
  have props: "\<forall>n \<in> set created. recipientType n = Student \<and> n_type n = ''new_event'' \<and> eventId (data n) = Some (e_id ev)"
    using c(3) by (simp add: new_event_input_def)
  have cnt: "length (filter (\<lambda>n. recipientId n = s_id s \<and> recipientType n = Student
                          \<and> n_type n = ''new_event'' \<and> eventId (data n) = Some (e_id ev)) created)
           = (if ?Q s then 1 else 0)" if s: "s \<in> set (students d)" for s
  proof -
    have "filter (\<lambda>n. recipientId n = s_id s \<and> recipientType n = Student
                          \<and> n_type n = ''new_event'' \<and> eventId (data n) = Some (e_id ev)) created
          = filter (\<lambda>n. recipientId n = s_id s) created"
      using props by (intro filter_cong) auto
    moreover have "length (filter (\<lambda>n. recipientId n = s_id s) created)
          = length (filter (\<lambda>y. ?Q y \<and> s_id y = s_id s) (students d))"
      by (simp only: count_recipients c(2) count_mapped)
    ultimately show ?thesis
      using count_selected [OF assms(1) s, of ?Q] by simp
  qed
  have only: "\<exists>s \<in> set (students d). recipientId n = s_id s \<and> ?Q s" if n: "n \<in> set created" for n
  proof -
    from n have "recipientId n \<in> set (map recipientId created)" by simp
    then have "recipientId n \<in> set ?ids" by (simp only: c(2))
    then show ?thesis by auto
  qed
  from res cnt only show ?thesis by blast
qed


text \<open>
  C2, as the code has it. Let the students of the collection have distinct ids. When
  the message built for the event fits the 500 characters that the notification schema
  allows, \<open>notifyNewEvent\<close> returns the notifications it has created and appended to
  the store; among them, every student whose \<open>interestedUniversities\<close> holds the
  university has exactly one of type \<open>new_event\<close> that refers to the event, every
  other student has none, and each created notification goes to an interested student.
  When the message is longer, no notification is stored, and the call fails validation
  as soon as one student is interested.
\<close>

theorem notifyNewEvent_fanout:
  assumes "distinct (map s_id (students d))"
  shows "if length (ni_message (new_event_input ev uni)) \<le> 500
    then
      (\<exists>created.
          snd (notifyNewEvent now d ev uni) = Inr created
        \<and> notifications (fst (notifyNewEvent now d ev uni)) = notifications d @ created
        \<and> (\<forall>s \<in> set (students d).
             length (filter (\<lambda>n. recipientId n = s_id s \<and> recipientType n = Student
                              \<and> n_type n = ''new_event'' \<and> eventId (data n) = Some (e_id ev)) created)
               = (if univ_id uni \<in> set (interestedUniversities s) then 1 else 0))
        \<and> (\<forall>n \<in> set created. \<exists>s \<in> set (students d).
             recipientId n = s_id s \<and> univ_id uni \<in> set (interestedUniversities s)))
    else
      notifications (fst (notifyNewEvent now d ev uni)) = notifications d
      \<and> (if filter (\<lambda>s. univ_id uni \<in> set (interestedUniversities s)) (students d) = []
          then snd (notifyNewEvent now d ev uni) = Inr []
          else snd (notifyNewEvent now d ev uni)
                 = Inl (ValidationError [''message is longer than the maximum allowed length (500)'']))"
proof (cases "length (ni_message (new_event_input ev uni)) \<le> 500")
  case True
  with notifyNewEvent_fits [OF assms True, of now] show ?thesis by simp
next
  case False
  then have "500 < length (ni_message (new_event_input ev uni))" by simp
  from notifyNewEvent_too_long [OF this, of now d] False show ?thesis by simp
qed

lemma example_fanout:
  "map recipientId (notifications (fst (notifyNewEvent 7 example_db example_event example_university)))
     = [1, 3]
   \<and> map n_type (notifications (fst (notifyNewEvent 7 example_db example_event example_university)))
     = [''new_event'', ''new_event'']"
  by (simp add: notifyNewEvent_def sendToMultipleUsers_def example_db_def example_students_def
      Notification_create_def validate_notification_def new_event_input_def example_event_def
      example_university_def notification_types_def quoted_def Let_def)

lemma example_long_title:
  "map s_id (filter (\<lambda>s. univ_id example_university \<in> set (interestedUniversities s))
       (students example_db)) = [1, 3]
   \<and> length (ni_message (new_event_input example_long_event example_university)) = 501
   \<and> notifyNewEvent 7 example_db example_long_event example_university
       = (example_db, Inl (ValidationError [''message is longer than the maximum allowed length (500)'']))"
  by (simp add: notifyNewEvent_def sendToMultipleUsers_def example_db_def example_students_def
      Notification_create_def validate_notification_def new_event_input_def example_long_event_def
      example_university_def notification_types_def quoted_def Let_def)

theorem notifyNewEvent_fanout_witness:
  "distinct (map s_id (students example_db))
   \<and> length (ni_message (new_event_input example_event example_university)) = 38
   \<and> map recipientId (notifications (fst (notifyNewEvent 7 example_db example_event example_university)))
       = [1, 3]
   \<and> map n_type (notifications (fst (notifyNewEvent 7 example_db example_event example_university)))
       = [''new_event'', ''new_event'']"
proof -
  have ids: "distinct (map s_id (students example_db))"
    by (simp add: example_db_def example_students_def)
  have len: "length (ni_message (new_event_input example_event example_university)) = 38"
    by (simp add: new_event_input_def example_event_def example_university_def quoted_def)
  from notifyNewEvent_fanout [OF ids, of example_event example_university 7] ids len example_fanout
  show ?thesis by simp
qed

text \<open>
  C2 as stated fails: students 1 and 3 are interested in the university, the event's
  title has 471 characters, so the message has 501, and no notification is stored.
\<close>

theorem long_title_notifies_nobody_counterexample:
  "map s_id (filter (\<lambda>s. univ_id example_university \<in> set (interestedUniversities s))
       (students example_db)) = [1, 3]
   \<and> length (e_title example_long_event) = 471
   \<and> notifyNewEvent 7 example_db example_long_event example_university
       = (example_db, Inl (ValidationError [''message is longer than the maximum allowed length (500)'']))
   \<and> notifications example_db = []"
  using example_long_title by (simp add: example_long_event_def example_db_def)

end
